theory Spec2Isabelle
  imports Complex_Main "HOL-Library.AList"
begin

section \<open>Values of the shared state file\<close>

text \<open>
  The conversation state travels between the processes as a JSON document.  A value read
  by \<^verbatim>\<open>json.load\<close> is \<^verbatim>\<open>None\<close>, a boolean, a number, a string, a list or a dictionary;
  a dictionary keeps its keys in insertion order, so it is an association list, and
  \<^verbatim>\<open>d[k] = v\<close> is \<open>AList.update\<close>.  Numbers (Python's int and float) are reals: the code
  only compares and averages them.
\<close>

datatype json =
    JNull
  | JBool bool
  | JNum real
  | JStr string
  | JList "json list"
  | JObj "(string \<times> json) list"

type_synonym dict = "(string \<times> json) list"

text \<open>The exceptions the modelled code can raise.\<close>

datatype error = AttributeError | TypeError | KeyError | ValueError | GraphExecutionError

text \<open>Python's truth value of an object: \<^verbatim>\<open>if x:\<close> and \<^verbatim>\<open>not x\<close>.\<close>

fun truthy :: "json \<Rightarrow> bool" where
  "truthy JNull = False"
| "truthy (JBool b) = b"
| "truthy (JNum r) = (r \<noteq> 0)"
| "truthy (JStr s) = (s \<noteq> [])"
| "truthy (JList xs) = (xs \<noteq> [])"
| "truthy (JObj d) = (d \<noteq> [])"

text \<open>\<^verbatim>\<open>d.get(k, dflt)\<close> on a dictionary.\<close>

definition dget :: "dict \<Rightarrow> string \<Rightarrow> json \<Rightarrow> json" where
  "dget d k dflt = (case map_of d k of Some v \<Rightarrow> v | None \<Rightarrow> dflt)"

text \<open>
  \<^verbatim>\<open>x.get(k, dflt)\<close> on a value that came out of the file: only a dictionary has the
  method, every other value raises AttributeError.
\<close>

fun py_get :: "json \<Rightarrow> string \<Rightarrow> json \<Rightarrow> error + json" where
  "py_get (JObj d) k dflt = Inr (dget d k dflt)"
| "py_get _ k dflt = Inl AttributeError"

text \<open>
  The number a value stands for in a comparison with a float: a bool is the integer 0 or
  1; \<^verbatim>\<open>None\<close>, strings, lists and dictionaries cannot be ordered against a float
  (TypeError).
\<close>

fun num_of :: "json \<Rightarrow> real option" where
  "num_of (JNum r) = Some r"
| "num_of (JBool b) = Some (if b then 1 else 0)"
| "num_of _ = None"

definition py_less :: "json \<Rightarrow> real \<Rightarrow> error + bool" where
  "py_less x c = (case num_of x of None \<Rightarrow> Inl TypeError | Some r \<Rightarrow> Inr (r < c))"

text \<open>Sequencing of two steps, the first of which may raise.\<close>

definition and_then :: "error + 'a \<Rightarrow> ('a \<Rightarrow> error + 'b) \<Rightarrow> error + 'b" where
  "and_then m f = (case m of Inl e \<Rightarrow> Inl e | Inr x \<Rightarrow> f x)"

section \<open>The sanction-letter trigger (sanction\_letter\_trigger.py)\<close>

definition required_customer_fields :: "string list" where
  "required_customer_fields =
     [''customer_id'', ''name'', ''phone'', ''address'', ''pan'',
      ''account_number'', ''ifsc_code'', ''bank_name'']"

definition required_loan_fields :: "string list" where
  "required_loan_fields = [''amount'', ''tenure'', ''purpose'', ''interest_rate'', ''emi'']"

text \<open>
  \<^verbatim>\<open>for field in fields: if not details.get(field): return False\<close>; the result is
  whether the loop ran to its end.
\<close>

fun no_field_missing :: "json \<Rightarrow> string list \<Rightarrow> error + bool" where
  "no_field_missing details [] = Inr True"
| "no_field_missing details (field # fields) =
     and_then (py_get details field JNull) (\<lambda>v.
       if \<not> truthy v then Inr False else no_field_missing details fields)"

text \<open>
  \<^verbatim>\<open>not vs.get("income_proof_verified", False) or vs.get("income_proof_confidence", 0) < 0.5\<close>:
  the comparison is only evaluated when the flag is set.
\<close>

definition income_proof_failed :: "json \<Rightarrow> error + bool" where
  "income_proof_failed verification_status =
     and_then (py_get verification_status ''income_proof_verified'' (JBool False)) (\<lambda>flag.
       if \<not> truthy flag then Inr True
       else and_then (py_get verification_status ''income_proof_confidence'' (JNum 0)) (\<lambda>c.
              py_less c 0.5))"

definition should_generate_sanction_letter :: "dict \<Rightarrow> error + bool" where
  "should_generate_sanction_letter state_data =
     (if truthy (dget state_data ''sanction_letter_id'' JNull) then Inr False
      else
        let verification_status = dget state_data ''verification_status'' (JObj []) in
        and_then (py_get verification_status ''verified'' (JBool False)) (\<lambda>verified.
        if \<not> truthy verified then Inr False
        else
          and_then (income_proof_failed verification_status) (\<lambda>failed.
          if failed then Inr False
          else
            and_then (py_get verification_status ''income_proof_confidence'' (JNum 0)) (\<lambda>c.
            and_then (py_less c 0.5) (\<lambda>low.
            if low then Inr False
            else
              let underwriting_result = dget state_data ''underwriting_result'' (JObj []) in
              and_then (py_get underwriting_result ''decision'' JNull) (\<lambda>decision.
              if \<not> (decision \<in> set [JStr ''approved'', JStr ''conditionally_approved''])
              then Inr False
              else
                let customer_details = dget state_data ''customer_details'' (JObj []) in
                and_then (no_field_missing customer_details required_customer_fields) (\<lambda>ok.
                if \<not> ok then Inr False
                else
                  let loan_details = dget state_data ''loan_details'' (JObj []) in
                  and_then (no_field_missing loan_details required_loan_fields) (\<lambda>ok'.
                  if \<not> ok' then Inr False
                  else Inr True))))))))"

text \<open>A field counts as present when the dictionary holds a non-empty value for it.\<close>

definition present :: "dict \<Rightarrow> string \<Rightarrow> bool" where
  "present d k = truthy (dget d k JNull)"

section \<open>The document verifier (document\_verification.py)\<close>

definition document_types :: "string list" where
  "document_types =
     [''salary_slip'', ''bank_statement'', ''income_tax_return'', ''form_16'',
      ''business_financial_statement'']"

text \<open>
  \<^verbatim>\<open>customer_details.get(doc_key, False) and not customer_details.get(verified_key, False)\<close>:
  the second lookup is made only when the first value is truthy.
\<close>

definition is_unverified :: "json \<Rightarrow> string \<Rightarrow> error + bool" where
  "is_unverified customer_details doc_type =
     and_then (py_get customer_details (doc_type @ ''_uploaded'') (JBool False)) (\<lambda>uploaded.
       if \<not> truthy uploaded then Inr False
       else and_then (py_get customer_details (doc_type @ ''_verified'') (JBool False))
              (\<lambda>verified. Inr (\<not> truthy verified)))"

fun any_unverified :: "json \<Rightarrow> string list \<Rightarrow> error + bool" where
  "any_unverified customer_details [] = Inr False"
| "any_unverified customer_details (doc_type # rest) =
     and_then (is_unverified customer_details doc_type) (\<lambda>found.
       if found then Inr True else any_unverified customer_details rest)"

definition has_unverified_documents :: "dict \<Rightarrow> error + bool" where
  "has_unverified_documents state_data =
     (if map_of state_data ''customer_details'' = None then Inr False
      else any_unverified (dget state_data ''customer_details'' (JObj [])) document_types)"

text \<open>
  \<^verbatim>\<open>_analyze_document\<close> draws a base confidence and a modifier from the random source
  (the document type only selects the interval of the modifier) and caps their sum
  between 0 and 1.  The two draws for a document type are the parameter \<open>draws\<close>.
\<close>

definition analyze_document :: "(string \<Rightarrow> real \<times> real) \<Rightarrow> string \<Rightarrow> real" where
  "analyze_document draws doc_type =
     (case draws doc_type of
        (base_confidence, confidence_modifier) \<Rightarrow>
          min (max (base_confidence + confidence_modifier) 0) 1)"

text \<open>The local variables of \<^verbatim>\<open>_process_documents\<close> that its loop changes.\<close>

record scan =
  verification_results :: dict
  overall_confidence :: real
  documents_processed :: nat
  modified :: bool

text \<open>The body of the loop for a document that is uploaded and not verified.\<close>

definition score_document :: "(string \<Rightarrow> real \<times> real) \<Rightarrow> string \<Rightarrow> string \<Rightarrow> scan \<Rightarrow> scan" where
  "score_document draws clock doc_type acc =
     (let confidence_score = analyze_document draws doc_type;
          results = AList.update (doc_type @ ''_verified'') (JBool (confidence_score \<ge> 0.5))
                      (verification_results acc);
          results = AList.update (doc_type @ ''_confidence'') (JNum confidence_score) results;
          results = AList.update (doc_type @ ''_verification_time'') (JStr clock) results;
          results = AList.update (doc_type @ ''_status'')
                      (JStr (if confidence_score \<ge> 0.5 then ''approved'' else ''rejected''))
                      results
      in \<lparr> verification_results = results,
           overall_confidence = overall_confidence acc + confidence_score,
           documents_processed = Suc (documents_processed acc),
           modified = True \<rparr>)"

fun scan_documents ::
  "(string \<Rightarrow> real \<times> real) \<Rightarrow> string \<Rightarrow> json \<Rightarrow> string list \<Rightarrow> scan \<Rightarrow> error + scan" where
  "scan_documents draws clock customer_details [] acc = Inr acc"
| "scan_documents draws clock customer_details (doc_type # rest) acc =
     and_then (is_unverified customer_details doc_type) (\<lambda>found.
       scan_documents draws clock customer_details rest
         (if found then score_document draws clock doc_type acc else acc))"

text \<open>\<^verbatim>\<open>xs.append(x)\<close> and \<^verbatim>\<open>d.update(other)\<close> on values out of the file.\<close>

fun py_append :: "json \<Rightarrow> json \<Rightarrow> error + json" where
  "py_append (JList xs) x = Inr (JList (xs @ [x]))"
| "py_append _ x = Inl AttributeError"

definition dict_update :: "dict \<Rightarrow> dict \<Rightarrow> dict" where
  "dict_update target other = fold (\<lambda>(k, v). AList.update k v) other target"

fun py_update :: "json \<Rightarrow> dict \<Rightarrow> error + json" where
  "py_update (JObj d) other = Inr (JObj (dict_update d other))"
| "py_update _ other = Inl AttributeError"

text \<open>
  The message about the outcome; \<open>fmt\<close> is the formatting of a float with two decimals.
\<close>

definition outcome_message :: "(real \<Rightarrow> string) \<Rightarrow> real \<Rightarrow> json" where
  "outcome_message fmt overall =
     JObj [(''role'', JStr ''assistant''),
           (''content'', JStr
              (if overall \<ge> 0.5
               then ''Your income proof documents have been verified successfully with an overall confidence score of ''
                      @ fmt overall @ ''.''
               else ''Your income proof documents could not be verified (confidence score: ''
                      @ fmt overall
                      @ ''). Please upload clearer documents or different proofs of income.''))]"

text \<open>
  \<^verbatim>\<open>_process_documents\<close>.  The result is the state document as the method leaves it and
  the flag \<open>modified\<close>; the method writes the document to the file exactly when the flag
  is set.  An exception leaves the method before anything is written.
\<close>

definition process_documents ::
  "(string \<Rightarrow> real \<times> real) \<Rightarrow> (real \<Rightarrow> string) \<Rightarrow> string \<Rightarrow> dict \<Rightarrow> error + (dict \<times> bool)" where
  "process_documents draws fmt clock state_data =
     (let customer_details = dget state_data ''customer_details'' (JObj [])
      in and_then (scan_documents draws clock customer_details document_types
                     \<lparr> verification_results = [], overall_confidence = 0,
                       documents_processed = 0, modified = False \<rparr>) (\<lambda>acc.
         and_then
           (if documents_processed acc > 0
            then
              let overall = overall_confidence acc / real (documents_processed acc);
                  results = AList.update ''income_proof_confidence'' (JNum overall)
                              (verification_results acc);
                  results = AList.update ''income_proof'' (JBool (overall \<ge> 0.5)) results;
                  results = AList.update ''income_proof_verification_time'' (JStr clock) results;
                  state_data = (if map_of state_data ''messages'' = None
                                then AList.update ''messages'' (JList []) state_data
                                else state_data)
              in and_then (py_append (dget state_data ''messages'' JNull)
                             (outcome_message fmt overall)) (\<lambda>msgs.
                   Inr (results, AList.update ''messages'' msgs state_data))
            else Inr (verification_results acc, state_data)) (\<lambda>(results, state_data).
         and_then (py_update customer_details results) (\<lambda>customer_details.
           Inr (AList.update ''customer_details'' customer_details state_data, modified acc)))))"

text \<open>The keys the loop writes for a document type, and the three keys of the aggregate.\<close>

definition result_keys :: "string \<Rightarrow> string list" where
  "result_keys doc_type =
     [doc_type @ ''_verified'', doc_type @ ''_confidence'', doc_type @ ''_verification_time'',
      doc_type @ ''_status'']"

definition aggregate_keys :: "string list" where
  "aggregate_keys = [''income_proof_confidence'', ''income_proof'', ''income_proof_verification_time'']"

text \<open>The test of the loop, on a dictionary.\<close>

definition unverified :: "dict \<Rightarrow> string \<Rightarrow> bool" where
  "unverified cd doc_type =
     (truthy (dget cd (doc_type @ ''_uploaded'') (JBool False)) \<and>
      \<not> truthy (dget cd (doc_type @ ''_verified'') (JBool False)))"

text \<open>\<^verbatim>\<open>state_data["messages"]\<close> is missing or a list, so that the outcome can be appended.\<close>

definition messages_appendable :: "dict \<Rightarrow> bool" where
  "messages_appendable state_data =
     (case map_of state_data ''messages'' of None \<Rightarrow> True | Some (JList xs) \<Rightarrow> True | Some _ \<Rightarrow> False)"

text \<open>Concrete inputs: one uploaded document, scored 0.3, 0.5 and 0.8.\<close>

definition uploaded_state :: dict where
  "uploaded_state =
     [(''customer_details'', JObj [(''business_financial_statement_uploaded'', JBool True)]),
      (''messages'', JList [])]"

definition low_draws :: "string \<Rightarrow> real \<times> real" where
  "low_draws doc_type = (0.4, - 0.1)"

definition boundary_draws :: "string \<Rightarrow> real \<times> real" where
  "boundary_draws doc_type = (0.5, 0)"

definition high_draws :: "string \<Rightarrow> real \<times> real" where
  "high_draws doc_type = (0.8, 0)"

definition example_fmt :: "real \<Rightarrow> string" where
  "example_fmt x = (if x < 0.5 then ''0.30'' else ''0.80'')"

definition example_clock :: string where
  "example_clock = ''2025-01-01T00:00:00''"

definition verified_state :: dict where
  "verified_state =
     [(''customer_details'',
         JObj [(''salary_slip_uploaded'', JBool True), (''salary_slip_verified'', JBool True),
               (''salary_slip_confidence'', JNum 0.9),
               (''business_financial_statement_uploaded'', JBool True)]),
      (''messages'', JList [])]"

definition rejected_state :: dict where
  "rejected_state =
     [(''customer_details'',
         JObj [(''business_financial_statement_uploaded'', JBool True),
               (''business_financial_statement_verified'', JBool False),
               (''business_financial_statement_confidence'', JNum 0.3),
               (''business_financial_statement_verification_time'', JStr example_clock),
               (''business_financial_statement_status'', JStr ''rejected''),
               (''income_proof_confidence'', JNum 0.3),
               (''income_proof'', JBool False),
               (''income_proof_verification_time'', JStr example_clock)]),
      (''messages'', JList [outcome_message example_fmt 0.3])]"

text \<open>The same document after a second cycle that scores it 0.8.\<close>

definition rescored_state :: dict where
  "rescored_state =
     [(''customer_details'',
         JObj [(''business_financial_statement_uploaded'', JBool True),
               (''business_financial_statement_verified'', JBool True),
               (''business_financial_statement_confidence'', JNum 0.8),
               (''business_financial_statement_verification_time'', JStr example_clock),
               (''business_financial_statement_status'', JStr ''approved''),
               (''income_proof_confidence'', JNum 0.8),
               (''income_proof'', JBool True),
               (''income_proof_verification_time'', JStr example_clock)]),
      (''messages'', JList [outcome_message example_fmt 0.3, outcome_message example_fmt 0.8])]"

text \<open>
  The loop of \<^verbatim>\<open>_process_documents\<close> on a dictionary of customer details, and the results
  with the aggregate added when a document was processed.
\<close>

definition scanned :: "(string \<Rightarrow> real \<times> real) \<Rightarrow> string \<Rightarrow> dict \<Rightarrow> scan" where
  "scanned draws clock cd =
     fold (\<lambda>doc_type acc. if unverified cd doc_type
                           then score_document draws clock doc_type acc else acc)
       document_types
       \<lparr> verification_results = [], overall_confidence = 0,
         documents_processed = 0, modified = False \<rparr>"

definition final_results :: "string \<Rightarrow> scan \<Rightarrow> dict" where
  "final_results clock acc =
     (if documents_processed acc > 0
      then AList.update ''income_proof_verification_time'' (JStr clock)
             (AList.update ''income_proof''
                (JBool (overall_confidence acc / real (documents_processed acc) \<ge> 0.5))
                (AList.update ''income_proof_confidence''
                   (JNum (overall_confidence acc / real (documents_processed acc)))
                   (verification_results acc)))
      else verification_results acc)"

section \<open>The conversation state (master\_agent.py)\<close>

datatype ConversationStage =
    GREETING
  | INTENT_CAPTURE
  | SALES_EXPLORATION
  | VERIFICATION
  | UNDERWRITING
  | DOCUMENTATION
  | CLOSURE

text \<open>\<^verbatim>\<open>stage.value\<close>, and the enum's constructor \<^verbatim>\<open>ConversationStage(v)\<close>, which raises
  ValueError on a string that names no member.\<close>

fun stage_value :: "ConversationStage \<Rightarrow> string" where
  "stage_value GREETING = ''greeting''"
| "stage_value INTENT_CAPTURE = ''intent_capture''"
| "stage_value SALES_EXPLORATION = ''sales_exploration''"
| "stage_value VERIFICATION = ''verification''"
| "stage_value UNDERWRITING = ''underwriting''"
| "stage_value DOCUMENTATION = ''documentation''"
| "stage_value CLOSURE = ''closure''"

definition ConversationStage_of :: "string \<Rightarrow> error + ConversationStage" where
  "ConversationStage_of v =
     (if v = ''greeting'' then Inr GREETING
      else if v = ''intent_capture'' then Inr INTENT_CAPTURE
      else if v = ''sales_exploration'' then Inr SALES_EXPLORATION
      else if v = ''verification'' then Inr VERIFICATION
      else if v = ''underwriting'' then Inr UNDERWRITING
      else if v = ''documentation'' then Inr DOCUMENTATION
      else if v = ''closure'' then Inr CLOSURE
      else Inl ValueError)"

datatype Decision = PENDING | APPROVED | REJECTED | NEED_MORE_INFO

fun decision_value :: "Decision \<Rightarrow> string" where
  "decision_value PENDING = ''pending''"
| "decision_value APPROVED = ''approved''"
| "decision_value REJECTED = ''rejected''"
| "decision_value NEED_MORE_INFO = ''need_more_info''"

definition Decision_of :: "string \<Rightarrow> error + Decision" where
  "Decision_of v =
     (if v = ''pending'' then Inr PENDING
      else if v = ''approved'' then Inr APPROVED
      else if v = ''rejected'' then Inr REJECTED
      else if v = ''need_more_info'' then Inr NEED_MORE_INFO
      else Inl ValueError)"

text \<open>
  What the class takes from outside the repository: Python's \<^verbatim>\<open>datetime\<close> with its
  \<^verbatim>\<open>isoformat\<close> and \<^verbatim>\<open>fromisoformat\<close> (\<open>None\<close> for the ValueError of an unparsable
  string), the identifier drawn by \<^verbatim>\<open>uuid.uuid4()\<close> and the reading of the clock.  The
  type of points in time is the parameter \<open>'dt\<close>.
\<close>

record 'dt py_env =
  isoformat :: "'dt \<Rightarrow> string"
  fromisoformat :: "string \<Rightarrow> 'dt option"
  uuid4 :: string
  now :: 'dt

text \<open>
  The attributes of \<^verbatim>\<open>ConversationState\<close>, with the types its constructor gives them: the
  detail attributes are dictionaries, the two logs are lists of dictionaries; an
  attribute that starts as \<^verbatim>\<open>None\<close> and is later set holds any value.
\<close>

record 'dt ConversationState =
  session_id :: string
  start_time :: 'dt
  stage :: ConversationStage
  customer_id :: json
  customer_name :: json
  customer_phone :: json
  customer_details :: dict
  loan_details :: dict
  selected_offer :: dict
  verification_status :: dict
  underwriting_result :: dict
  decision :: Decision
  sanction_letter_id :: json
  messages :: "dict list"
  errors :: "dict list"
  next_agent :: json
  api_retries :: dict
  document_uploads :: dict
  gemini_history :: "json list"
  recursion_depth :: int

definition default_customer_details :: dict where
  "default_customer_details =
     [(''full_name'', JNull),
      (''date_of_birth'', JNull),
      (''father_or_spouse_name'', JNull),
      (''permanent_address'', JNull),
      (''current_address'', JNull),
      (''mobile_number'', JNull),
      (''email_id'', JNull),
      (''marital_status'', JNull),
      (''number_of_dependents'', JNull),
      (''nationality'', JNull),
      (''pan_number'', JNull),
      (''aadhaar_number'', JNull),
      (''id_proof'', JNull),
      (''address_proof'', JNull),
      (''employment_type'', JNull),
      (''company_or_business_name'', JNull),
      (''job_designation'', JNull),
      (''years_of_experience'', JNull),
      (''monthly_income'', JNull),
      (''annual_income'', JNull),
      (''employer_or_business_details'', JNull),
      (''existing_loans_or_emis'', JNull),
      (''monthly_financial_obligations'', JNull),
      (''savings_and_investments'', JNull),
      (''credit_score'', JNull),
      (''cibil_score'', JNull),
      (''salary_slips_available'', JBool False),
      (''form_16_or_itr_available'', JBool False),
      (''bank_statements_available'', JBool False),
      (''gst_certificate_available'', JBool False),
      (''trade_license_available'', JBool False),
      (''profit_and_loss_statement_available'', JBool False),
      (''balance_sheet_available'', JBool False),
      (''photographs'', JNull),
      (''signature'', JNull)]"

definition default_loan_details :: dict where
  "default_loan_details =
     [(''amount'', JNull), (''tenure'', JNull), (''purpose'', JNull),
      (''interest_rate'', JNull), (''emi'', JNull), (''processing_fee'', JNull)]"

text \<open>\<^verbatim>\<open>ConversationState()\<close>: the constructor.\<close>

definition new_state :: "'dt py_env \<Rightarrow> 'dt ConversationState" where
  "new_state env =
     \<lparr> session_id = uuid4 env,
       start_time = now env,
       stage = GREETING,
       customer_id = JNull,
       customer_name = JNull,
       customer_phone = JNull,
       customer_details = default_customer_details,
       loan_details = default_loan_details,
       selected_offer = [],
       verification_status = [],
       underwriting_result = [],
       decision = PENDING,
       sanction_letter_id = JNull,
       messages = [],
       errors = [],
       next_agent = JNull,
       api_retries = [],
       document_uploads = [],
       gemini_history = [],
       recursion_depth = 0 \<rparr>"

text \<open>
  The dictionary \<^verbatim>\<open>to_dict\<close> writes and \<^verbatim>\<open>from_dict\<close> reads: one optional entry for each
  key the two methods name (\<open>None\<close>: the key is absent), with values of the types of the
  attributes; stage, decision and start time travel as strings.
\<close>

record state_dict =
  d_session_id :: "string option"
  d_start_time :: "string option"
  d_stage :: "string option"
  d_gemini_history :: "json list option"
  d_customer_id :: "json option"
  d_customer_name :: "json option"
  d_customer_phone :: "json option"
  d_customer_details :: "dict option"
  d_loan_details :: "dict option"
  d_selected_offer :: "dict option"
  d_verification_status :: "dict option"
  d_underwriting_result :: "dict option"
  d_decision :: "string option"
  d_sanction_letter_id :: "json option"
  d_messages :: "dict list option"
  d_errors :: "dict list option"
  d_next_agent :: "json option"
  d_api_retries :: "dict option"
  d_document_uploads :: "dict option"

definition to_dict :: "'dt py_env \<Rightarrow> 'dt ConversationState \<Rightarrow> state_dict" where
  "to_dict env self =
     \<lparr> d_session_id = Some (session_id self),
       d_start_time = Some (isoformat env (start_time self)),
       d_stage = Some (stage_value (stage self)),
       d_gemini_history = None,
       d_customer_id = Some (customer_id self),
       d_customer_name = Some (customer_name self),
       d_customer_phone = Some (customer_phone self),
       d_customer_details = Some (customer_details self),
       d_loan_details = Some (loan_details self),
       d_selected_offer = Some (selected_offer self),
       d_verification_status = Some (verification_status self),
       d_underwriting_result = Some (underwriting_result self),
       d_decision = Some (decision_value (decision self)),
       d_sanction_letter_id = Some (sanction_letter_id self),
       d_messages = Some (messages self),
       d_errors = Some (errors self),
       d_next_agent = Some (next_agent self),
       d_api_retries = Some (api_retries self),
       d_document_uploads = Some (document_uploads self) \<rparr>"

text \<open>\<^verbatim>\<open>data.get(key, default)\<close> on such a dictionary.\<close>

definition get_or :: "'a option \<Rightarrow> 'a \<Rightarrow> 'a" where
  "get_or entry dflt = (case entry of Some v \<Rightarrow> v | None \<Rightarrow> dflt)"

text \<open>
  \<^verbatim>\<open>from_dict\<close>: a fresh object, then one assignment per key, in the order of the source.
  Three of them convert and can raise ValueError: the start time, the stage and the
  decision.  The counter \<open>recursion_depth\<close> is not assigned: it keeps the constructor's 0.
\<close>

definition from_dict :: "'dt py_env \<Rightarrow> state_dict \<Rightarrow> error + 'dt ConversationState" where
  "from_dict env data =
     (let state = new_state env;
          state = state\<lparr> session_id := get_or (d_session_id data) (session_id state) \<rparr>
      in case fromisoformat env (get_or (d_start_time data) (isoformat env (start_time state))) of
           None \<Rightarrow> Inl ValueError
         | Some t \<Rightarrow>
      let state = state\<lparr> start_time := t \<rparr>
      in and_then (ConversationStage_of (get_or (d_stage data) (stage_value (stage state)))) (\<lambda>st.
      let state = state\<lparr> stage := st \<rparr>;
          state = state\<lparr> gemini_history := get_or (d_gemini_history data) [] \<rparr>;
          state = state\<lparr> customer_id := get_or (d_customer_id data) (customer_id state) \<rparr>;
          state = state\<lparr> customer_name := get_or (d_customer_name data) (customer_name state) \<rparr>;
          state = state\<lparr> customer_phone := get_or (d_customer_phone data) (customer_phone state) \<rparr>;
          state = state\<lparr> customer_details :=
                    get_or (d_customer_details data) (customer_details state) \<rparr>;
          state = state\<lparr> loan_details := get_or (d_loan_details data) (loan_details state) \<rparr>;
          state = state\<lparr> selected_offer := get_or (d_selected_offer data) (selected_offer state) \<rparr>;
          state = state\<lparr> verification_status :=
                    get_or (d_verification_status data) (verification_status state) \<rparr>;
          state = state\<lparr> underwriting_result :=
                    get_or (d_underwriting_result data) (underwriting_result state) \<rparr>
      in and_then (Decision_of (get_or (d_decision data) (decision_value (decision state)))) (\<lambda>dec.
      let state = state\<lparr> decision := dec \<rparr>;
          state = state\<lparr> sanction_letter_id :=
                    get_or (d_sanction_letter_id data) (sanction_letter_id state) \<rparr>;
          state = state\<lparr> messages := get_or (d_messages data) (messages state) \<rparr>;
          state = state\<lparr> errors := get_or (d_errors data) (errors state) \<rparr>;
          state = state\<lparr> next_agent := get_or (d_next_agent data) (next_agent state) \<rparr>;
          state = state\<lparr> api_retries := get_or (d_api_retries data) (api_retries state) \<rparr>;
          state = state\<lparr> document_uploads :=
                    get_or (d_document_uploads data) (document_uploads state) \<rparr>
      in Inr state)))"

text \<open>\<^verbatim>\<open>add_message\<close> and \<^verbatim>\<open>add_error\<close> append one entry, stamped with the clock.\<close>

definition add_message ::
  "'dt py_env \<Rightarrow> string \<Rightarrow> string \<Rightarrow> 'dt ConversationState \<Rightarrow> 'dt ConversationState" where
  "add_message env role content self =
     self\<lparr> messages := messages self @
       [[(''role'', JStr role), (''content'', JStr content),
         (''timestamp'', JStr (isoformat env (now env)))]] \<rparr>"

definition add_error ::
  "'dt py_env \<Rightarrow> string \<Rightarrow> string \<Rightarrow> json \<Rightarrow> 'dt ConversationState \<Rightarrow> 'dt ConversationState"
  where
  "add_error env error_type error_message agent self =
     self\<lparr> errors := errors self @
       [[(''type'', JStr error_type), (''message'', JStr error_message), (''agent'', agent),
         (''timestamp'', JStr (isoformat env (now env)))]] \<rparr>"

section \<open>The stage machine (\_determine\_next\_step)\<close>

text \<open>
  The body of the \<^verbatim>\<open>try\<close> block: the chain of tests on the stage, then the check that a
  next agent is set.  Every operation in it is defined on a state of the types above
  (\<^verbatim>\<open>.get\<close> on a dictionary, a truth test), so the block does not raise and its handler
  is not entered.  The last branch of the chain, for a stage that is none of the seven
  members, has no value of the enumeration left to run on.
\<close>

definition next_step :: "'dt ConversationState \<Rightarrow> 'dt ConversationState" where
  "next_step state_obj =
     (let state_obj =
        (case stage state_obj of
           GREETING \<Rightarrow>
             if truthy (customer_id state_obj)
             then state_obj\<lparr> stage := INTENT_CAPTURE, next_agent := JStr ''generate_response'' \<rparr>
             else state_obj\<lparr> next_agent := JStr ''generate_response'' \<rparr>
         | INTENT_CAPTURE \<Rightarrow>
             state_obj\<lparr> stage := SALES_EXPLORATION, next_agent := JStr ''sales_agent'' \<rparr>
         | SALES_EXPLORATION \<Rightarrow>
             if truthy (dget (loan_details state_obj) ''amount'' JNull) \<and>
                truthy (dget (loan_details state_obj) ''tenure'' JNull)
             then state_obj\<lparr> stage := VERIFICATION, next_agent := JStr ''verification_agent'' \<rparr>
             else state_obj\<lparr> next_agent := JStr ''sales_agent'' \<rparr>
         | VERIFICATION \<Rightarrow>
             if truthy (dget (verification_status state_obj) ''verified'' (JBool False))
             then state_obj\<lparr> stage := UNDERWRITING, next_agent := JStr ''underwriting_agent'' \<rparr>
             else state_obj\<lparr> next_agent := JStr ''verification_agent'' \<rparr>
         | UNDERWRITING \<Rightarrow>
             if decision state_obj \<in> set [APPROVED, REJECTED]
             then (if decision state_obj = APPROVED
                   then state_obj\<lparr> stage := DOCUMENTATION,
                                   next_agent := JStr ''sanction_letter_agent'' \<rparr>
                   else state_obj\<lparr> stage := CLOSURE, next_agent := JStr ''generate_response'' \<rparr>)
             else if decision state_obj = NEED_MORE_INFO
             then state_obj\<lparr> next_agent := JStr ''underwriting_agent'' \<rparr>
             else state_obj\<lparr> next_agent := JStr ''underwriting_agent'' \<rparr>
         | DOCUMENTATION \<Rightarrow>
             if truthy (sanction_letter_id state_obj)
             then state_obj\<lparr> stage := CLOSURE, next_agent := JStr ''generate_response'' \<rparr>
             else state_obj\<lparr> next_agent := JStr ''sanction_letter_agent'' \<rparr>
         | CLOSURE \<Rightarrow>
             state_obj\<lparr> next_agent := JStr ''end'' \<rparr>)
      in if \<not> truthy (next_agent state_obj)
         then state_obj\<lparr> next_agent := JStr ''generate_response'' \<rparr>
         else state_obj)"

text \<open>What a node of the graph returns.\<close>

record node_output =
  out_response :: string
  out_next_agent :: json
  out_state :: state_dict

text \<open>
  The node receives the state as a dictionary or as an object; a dictionary is converted
  first, before the \<^verbatim>\<open>try\<close> block, so a ValueError of the conversion leaves the method.
\<close>

datatype 'dt state_arg = AsDict state_dict | AsObject "'dt ConversationState"

definition determine_next_step ::
  "'dt py_env \<Rightarrow> 'dt state_arg \<Rightarrow> error + (node_output \<times> 'dt ConversationState)" where
  "determine_next_step env state =
     and_then (case state of AsDict data \<Rightarrow> from_dict env data | AsObject obj \<Rightarrow> Inr obj)
       (\<lambda>state_obj.
          let state_obj = next_step state_obj
          in Inr (\<lparr> out_response = ''Determined next step'',
                    out_next_agent = next_agent state_obj,
                    out_state = to_dict env state_obj \<rparr>, state_obj))"

section \<open>The conversation driver (process\_message)\<close>

text \<open>
  The graph is run by a library outside the repository: its run is a parameter that
  either raises (the text of the exception) or returns a result.  A result that is falsy
  or no dictionary is \<open>NoResult\<close>; a dictionary holds the four entries the driver reads,
  each optional, and its state entry is a state dictionary or some other value.
\<close>

datatype state_entry = StateDict state_dict | NotAStateDict

record result_dict =
  r_response :: "string option"
  r_stage :: "string option"
  r_decision :: "string option"
  r_state :: "state_entry option"

datatype graph_result = NoResult | Result result_dict

text \<open>What \<^verbatim>\<open>process_message\<close> returns.\<close>

record response =
  resp_response :: string
  resp_stage :: string
  resp_decision :: string
  resp_next_agent :: json
  resp_state :: state_dict

definition apology :: string where
  "apology = ''Apologies, I encountered an internal issue while processing your request.''"

definition process_message ::
  "'dt py_env \<Rightarrow> (string \<Rightarrow> string + graph_result) \<Rightarrow> 'dt ConversationState \<Rightarrow> string
     \<Rightarrow> response \<times> 'dt ConversationState" where
  "process_message env graph_invoke self_state user_message =
     (let self_state = add_message env ''user'' user_message self_state
      in case graph_invoke user_message of
           Inr result \<Rightarrow>
             let result =
                   (case result of
                      NoResult \<Rightarrow>
                        \<lparr> r_response = Some (''I'' @ [CHR 0x27] @ ''m sorry, something went wrong while processing your request. Could you please rephrase?''),
                          r_stage = Some (stage_value (stage self_state)),
                          r_decision = Some (decision_value (decision self_state)),
                          r_state = Some (StateDict (to_dict env self_state)) \<rparr>
                    | Result r \<Rightarrow> r);
                 result = result\<lparr> r_response :=
                            Some (get_or (r_response result) ''No valid response generated.'') \<rparr>;
                 result = result\<lparr> r_stage :=
                            Some (get_or (r_stage result) (stage_value (stage self_state))) \<rparr>;
                 result = result\<lparr> r_decision :=
                            Some (get_or (r_decision result) (decision_value (decision self_state))) \<rparr>;
                 result = result\<lparr> r_state :=
                            Some (get_or (r_state result) (StateDict (to_dict env self_state))) \<rparr>;
                 self_state =
                   (case r_state result of
                      Some (StateDict data) \<Rightarrow>
                        (case from_dict env data of
                           Inr rebuilt \<Rightarrow> rebuilt
                         | Inl state_err \<Rightarrow> self_state)
                    | _ \<Rightarrow> self_state);
                 response_text = get_or (r_response result) ''Sorry, I didn't catch that.'';
                 self_state =
                   (if recursion_depth self_state > 25
                    then self_state\<lparr> stage := GREETING, next_agent := JStr ''generate_response'' \<rparr>
                    else self_state);
                 self_state = add_message env ''assistant'' response_text self_state
             in (\<lparr> resp_response = response_text,
                   resp_stage = stage_value (stage self_state),
                   resp_decision = decision_value (decision self_state),
                   resp_next_agent =
                     (if truthy (next_agent self_state) then next_agent self_state
                      else JStr ''generate_response''),
                   resp_state = to_dict env self_state \<rparr>, self_state)
         | Inl e \<Rightarrow>
             let self_state = self_state\<lparr> errors := errors self_state @
                   [[(''type'', JStr ''GraphExecutionError''), (''message'', JStr e),
                     (''timestamp'', JStr (isoformat env (now env)))]] \<rparr>
             in (\<lparr> resp_response = apology,
                   resp_stage = stage_value (stage self_state),
                   resp_decision = ''error'',
                   resp_next_agent = JStr ''generate_response'',
                   resp_state = to_dict env self_state \<rparr>, self_state))"

section \<open>Concrete inputs\<close>

text \<open>An environment whose points in time are their own ISO texts.\<close>

definition example_env :: "string py_env" where
  "example_env =
     \<lparr> isoformat = (\<lambda>t. t), fromisoformat = Some,
       uuid4 = ''session-1'', now = ''2025-01-01T00:00:00'' \<rparr>"

text \<open>A run of the graph that raises.\<close>

definition failing_graph :: "string \<Rightarrow> string + graph_result" where
  "failing_graph user_message = Inl ''node returned None''"

text \<open>A persisted state whose stage is none of the seven names.\<close>

definition unknown_stage_dict :: state_dict where
  "unknown_stage_dict =
     (to_dict example_env (new_state example_env))\<lparr> d_stage := Some ''archived'' \<rparr>"

text \<open>A state document that is ready for its sanction letter.\<close>

definition ready_state_data :: dict where
  "ready_state_data =
     [(''verification_status'',
         JObj [(''verified'', JBool True), (''income_proof_verified'', JBool True),
               (''income_proof_confidence'', JNum 0.8)]),
      (''underwriting_result'', JObj [(''decision'', JStr ''approved'')]),
      (''customer_details'',
         JObj [(''customer_id'', JStr ''C001''), (''name'', JStr ''Asha''),
               (''phone'', JStr ''9000000001''), (''address'', JStr ''Pune''),
               (''pan'', JStr ''ABCDE1234F''), (''account_number'', JStr ''12345''),
               (''ifsc_code'', JStr ''HDFC0001''), (''bank_name'', JStr ''HDFC'')]),
      (''loan_details'',
         JObj [(''amount'', JNum 500000), (''tenure'', JNum 36), (''purpose'', JStr ''home''),
               (''interest_rate'', JNum 10.5), (''emi'', JNum 16251)])]"

section \<open>The state merge (state\_manager.py)\<close>

text \<open>
  \<^verbatim>\<open>_update_state_from_dict\<close> works on any object that has the attributes it names, and
  asks with \<^verbatim>\<open>hasattr\<close> for some of them.  An attribute is missing, or holds \<^verbatim>\<open>None\<close>, or
  holds a value.
\<close>

datatype 'a attr = NoAttr | IsNone | Has 'a

record sm_state =
  sm_document_uploads :: "dict attr"
  sm_income_proof_verification :: "dict attr"
  sm_verification_status :: "dict attr"
  sm_customer_details :: "json attr"
  sm_loan_details :: "json attr"
  sm_extracted_info :: "json attr"
  sm_messages :: "dict list attr"
  sm_has_add_message :: bool
  sm_conversation_stage :: "json attr"
  sm_decision :: "json attr"
  sm_underwriting_result :: "json attr"
  sm_documentation_status :: "dict attr"
  sm_sanction_letter_id :: "json attr"
  sm_last_updated :: "json attr"

text \<open>
  The snapshot loaded from the file: one optional entry for each key the method looks
  for.  Document uploads, the verification records and the documentation status are
  dictionaries, the messages a list of dictionaries.
\<close>

record snapshot =
  e_document_uploads :: "dict option"
  e_income_proof_verification :: "dict option"
  e_customer_details :: "json option"
  e_loan_details :: "json option"
  e_extracted_info :: "json option"
  e_messages :: "dict list option"
  e_conversation_stage :: "json option"
  e_decision :: "json option"
  e_verification_status :: "dict option"
  e_underwriting_result :: "json option"
  e_documentation_status :: "dict option"
  e_sanction_letter_id :: "json option"
  e_last_updated :: "json option"

text \<open>\<^verbatim>\<open>if d is None: d = {}\<close>, for an attribute that exists.\<close>

fun dict_or_empty :: "dict attr \<Rightarrow> dict" where
  "dict_or_empty (Has d) = d"
| "dict_or_empty _ = []"

text \<open>\<^verbatim>\<open>for doc_id, doc_info in uploads.items(): target[doc_id] = doc_info\<close>\<close>

definition merge_uploads :: "dict \<Rightarrow> dict \<Rightarrow> dict" where
  "merge_uploads uploads target = fold (\<lambda>(doc_id, doc_info). AList.update doc_id doc_info) uploads target"

definition update_document_uploads :: "snapshot \<Rightarrow> sm_state \<Rightarrow> sm_state" where
  "update_document_uploads state_dict state =
     (case e_document_uploads state_dict of
        Some uploads \<Rightarrow>
          if sm_document_uploads state \<noteq> NoAttr
          then state\<lparr> sm_document_uploads :=
                 Has (merge_uploads uploads (dict_or_empty (sm_document_uploads state))) \<rparr>
          else state
      | None \<Rightarrow> state)"

definition update_income_proof :: "snapshot \<Rightarrow> sm_state \<Rightarrow> sm_state" where
  "update_income_proof state_dict state =
     (case e_income_proof_verification state_dict of
        Some ipv \<Rightarrow>
          let state = state\<lparr> sm_income_proof_verification := Has ipv \<rparr>
          in if sm_verification_status state \<noteq> NoAttr
             then state\<lparr> sm_verification_status := Has
                    (AList.update ''income_proof_confidence'' (dget ipv ''confidence_score'' (JNum 0))
                      (AList.update ''income_proof_verified''
                         (JBool (dget ipv ''status'' JNull = JStr ''verified''))
                         (dict_or_empty (sm_verification_status state)))) \<rparr>
             else state
      | None \<Rightarrow> state)"

definition update_basic_fields :: "snapshot \<Rightarrow> sm_state \<Rightarrow> sm_state" where
  "update_basic_fields state_dict state =
     (let state = (case e_customer_details state_dict of
                     Some v \<Rightarrow> state\<lparr> sm_customer_details := Has v \<rparr> | None \<Rightarrow> state);
          state = (case e_loan_details state_dict of
                     Some v \<Rightarrow> state\<lparr> sm_loan_details := Has v \<rparr> | None \<Rightarrow> state);
          state = (case e_extracted_info state_dict of
                     Some v \<Rightarrow> state\<lparr> sm_extracted_info := Has v \<rparr> | None \<Rightarrow> state)
      in state)"

text \<open>\<^verbatim>\<open>len(state.messages) if state.messages else 0\<close>\<close>

fun current_msg_count :: "dict list attr \<Rightarrow> nat" where
  "current_msg_count (Has ms) = length ms"
| "current_msg_count _ = 0"

text \<open>
  \<^verbatim>\<open>state.add_message(msg['role'], msg['content'])\<close> for the messages from index \<open>i\<close> on:
  a message without one of the two keys raises KeyError, and the object appends to its
  own list (AttributeError when that is \<^verbatim>\<open>None\<close>); what was appended before the
  exception stays.  The entry appended is the one \<^verbatim>\<open>ConversationState.add_message\<close>
  builds; \<open>stamp i\<close> is the clock's text when message \<open>i\<close> is appended.
\<close>

fun add_new_messages ::
  "(nat \<Rightarrow> string) \<Rightarrow> nat \<Rightarrow> dict list \<Rightarrow> dict list attr \<Rightarrow> dict list attr \<times> error option"
  where
  "add_new_messages stamp i [] own = (own, None)"
| "add_new_messages stamp i (msg # rest) own =
     (case map_of msg ''role'' of
        None \<Rightarrow> (own, Some KeyError)
      | Some role \<Rightarrow>
     (case map_of msg ''content'' of
        None \<Rightarrow> (own, Some KeyError)
      | Some content \<Rightarrow>
     (case own of
        Has ms \<Rightarrow>
          add_new_messages stamp (Suc i) rest
            (Has (ms @ [[(''role'', role), (''content'', content),
                         (''timestamp'', JStr (stamp i))]]))
      | _ \<Rightarrow> (own, Some AttributeError))))"

definition update_messages ::
  "(nat \<Rightarrow> string) \<Rightarrow> snapshot \<Rightarrow> sm_state \<Rightarrow> sm_state \<times> error option" where
  "update_messages stamp state_dict state =
     (case e_messages state_dict of
        Some loaded \<Rightarrow>
          if sm_messages state \<noteq> NoAttr
          then
            let current_msg_count = current_msg_count (sm_messages state)
            in if length loaded > current_msg_count
               then if \<not> sm_has_add_message state
                    then (state\<lparr> sm_messages := Has loaded \<rparr>, None)
                    else
                      (case add_new_messages stamp current_msg_count
                              (drop current_msg_count loaded) (sm_messages state) of
                         (own, err) \<Rightarrow> (state\<lparr> sm_messages := own \<rparr>, err))
               else (state\<lparr> sm_messages := Has loaded \<rparr>, None)
          else (state, None)
      | None \<Rightarrow> (state, None))"

definition update_remaining_fields :: "snapshot \<Rightarrow> sm_state \<Rightarrow> sm_state" where
  "update_remaining_fields state_dict state =
     (let state = (case e_conversation_stage state_dict of
                     Some v \<Rightarrow> state\<lparr> sm_conversation_stage := Has v \<rparr> | None \<Rightarrow> state);
          state = (case e_decision state_dict of
                     Some v \<Rightarrow> state\<lparr> sm_decision := Has v \<rparr> | None \<Rightarrow> state);
          state = (case e_verification_status state_dict of
                     Some v \<Rightarrow> state\<lparr> sm_verification_status := Has v \<rparr> | None \<Rightarrow> state);
          state = (case e_underwriting_result state_dict of
                     Some v \<Rightarrow> state\<lparr> sm_underwriting_result := Has v \<rparr> | None \<Rightarrow> state);
          state = (case e_documentation_status state_dict of
                     Some v \<Rightarrow> state\<lparr> sm_documentation_status := Has v \<rparr> | None \<Rightarrow> state);
          state = (case e_sanction_letter_id state_dict of
                     Some v \<Rightarrow>
                       let state = state\<lparr> sm_sanction_letter_id := Has v \<rparr>
                       in if sm_documentation_status state \<noteq> NoAttr
                          then state\<lparr> sm_documentation_status := Has
                                 (AList.update ''document_path'' v
                                   (AList.update ''status'' (JStr ''completed'')
                                      (dict_or_empty (sm_documentation_status state)))) \<rparr>
                          else state
                   | None \<Rightarrow> state);
          state = (case e_last_updated state_dict of
                     Some v \<Rightarrow> state\<lparr> sm_last_updated := Has v \<rparr> | None \<Rightarrow> state)
      in state)"

text \<open>
  The whole method.  The object is changed in place, so an exception in the message loop
  leaves it as far as the method came; the result is the object and the exception, if
  any.
\<close>

definition update_state_from_dict ::
  "(nat \<Rightarrow> string) \<Rightarrow> sm_state \<Rightarrow> snapshot \<Rightarrow> sm_state \<times> error option" where
  "update_state_from_dict stamp state state_dict =
     (let state = update_document_uploads state_dict state;
          state = update_income_proof state_dict state;
          state = update_basic_fields state_dict state
      in case update_messages stamp state_dict state of
           (state, Some e) \<Rightarrow> (state, Some e)
         | (state, None) \<Rightarrow> (update_remaining_fields state_dict state, None))"

text \<open>What the method appends for one loaded message.\<close>

definition appended_entry :: "(nat \<Rightarrow> string) \<Rightarrow> nat \<Rightarrow> dict \<Rightarrow> dict" where
  "appended_entry stamp i msg =
     [(''role'', dget msg ''role'' JNull), (''content'', dget msg ''content'' JNull),
      (''timestamp'', JStr (stamp i))]"

definition has_role_and_content :: "dict \<Rightarrow> bool" where
  "has_role_and_content msg = (map_of msg ''role'' \<noteq> None \<and> map_of msg ''content'' \<noteq> None)"

text \<open>Concrete inputs for the merge: two messages in memory, one of them in the file.\<close>

definition first_message :: dict where
  "first_message = [(''role'', JStr ''user''), (''content'', JStr ''Hello'')]"

definition second_message :: dict where
  "second_message = [(''role'', JStr ''assistant''), (''content'', JStr ''Welcome'')]"

definition example_stamp :: "nat \<Rightarrow> string" where
  "example_stamp i = ''2025-01-01T00:00:00''"

definition memory_state :: sm_state where
  "memory_state =
     \<lparr> sm_document_uploads = Has [],
       sm_income_proof_verification = NoAttr,
       sm_verification_status = Has [],
       sm_customer_details = Has (JObj []),
       sm_loan_details = Has (JObj []),
       sm_extracted_info = NoAttr,
       sm_messages = Has [first_message, second_message],
       sm_has_add_message = True,
       sm_conversation_stage = NoAttr,
       sm_decision = Has (JStr ''pending''),
       sm_underwriting_result = Has (JObj []),
       sm_documentation_status = NoAttr,
       sm_sanction_letter_id = IsNone,
       sm_last_updated = NoAttr \<rparr>"

definition no_snapshot :: snapshot where
  "no_snapshot =
     \<lparr> e_document_uploads = None, e_income_proof_verification = None,
       e_customer_details = None, e_loan_details = None, e_extracted_info = None,
       e_messages = None, e_conversation_stage = None, e_decision = None,
       e_verification_status = None, e_underwriting_result = None,
       e_documentation_status = None, e_sanction_letter_id = None, e_last_updated = None \<rparr>"

definition stale_snapshot :: snapshot where
  "stale_snapshot =
     no_snapshot\<lparr> e_messages := Some [first_message],
                  e_document_uploads := Some [(''doc_1'', JObj [(''verified'', JBool False)])] \<rparr>"

definition newer_snapshot :: snapshot where
  "newer_snapshot =
     no_snapshot\<lparr> e_messages := Some [first_message, second_message, first_message],
                  e_document_uploads := Some [(''doc_1'', JObj [(''verified'', JBool False)])] \<rparr>"

section \<open>Properties of the sanction trigger\<close>

lemma and_then_Inr_iff:
  "and_then m f = Inr y \<longleftrightarrow> (\<exists>x. m = Inr x \<and> f x = Inr y)"
  by (cases m) (simp_all add: and_then_def)

lemma py_get_Inr_iff:
  "py_get x k dflt = Inr v \<longleftrightarrow> (\<exists>d. x = JObj d \<and> v = dget d k dflt)"
  by (cases x) auto

lemma no_field_missing_iff:
  "no_field_missing details fs = Inr True \<longleftrightarrow>
     fs = [] \<or> (\<exists>d. details = JObj d \<and> list_all (present d) fs)"
proof (induction fs)
  case Nil
  show ?case by simp
next
  case (Cons f fs)
  show ?case
  proof (cases details)
    case (JObj d)
    with Cons show ?thesis
      by (cases fs) (auto simp: and_then_def present_def)
  qed (simp_all add: and_then_def)
qed

lemma required_customer_fields_nonempty: "required_customer_fields \<noteq> []"
  by (simp add: required_customer_fields_def)

lemma required_loan_fields_nonempty: "required_loan_fields \<noteq> []"
  by (simp add: required_loan_fields_def)

lemma py_less_iff:
  "py_less x c = Inr b \<longleftrightarrow> (\<exists>r. num_of x = Some r \<and> b = (r < c))"
  by (auto simp: py_less_def split: option.splits)

lemma income_proof_failed_False_iff:
  "income_proof_failed (JObj vs) = Inr False \<longleftrightarrow>
     truthy (dget vs ''income_proof_verified'' (JBool False)) \<and>
     (\<exists>r. num_of (dget vs ''income_proof_confidence'' (JNum 0)) = Some r \<and> 0.5 \<le> r)"
  by (auto simp: income_proof_failed_def and_then_def py_less_iff)

text \<open>
  Claim C5.  The readiness predicate of the sanction trigger returns true exactly when:
  no sanction letter id is set; the verification status is complete (\<open>verified\<close>); the
  income proof is verified with a confidence of at least 0.5; the underwriting decision is
  approved or conditionally approved; each of the eight required customer fields and each
  of the five required loan fields is present.  In particular an income-proof confidence
  of 0.3 makes it return false, whatever the rest of the state is.
\<close>

theorem should_generate_sanction_letter_iff:
  "(should_generate_sanction_letter sd = Inr True \<longleftrightarrow>
      \<not> truthy (dget sd ''sanction_letter_id'' JNull) \<and>
      (\<exists>vs ur cd ld r.
          dget sd ''verification_status'' (JObj []) = JObj vs \<and>
          truthy (dget vs ''verified'' (JBool False)) \<and>
          truthy (dget vs ''income_proof_verified'' (JBool False)) \<and>
          num_of (dget vs ''income_proof_confidence'' (JNum 0)) = Some r \<and> 0.5 \<le> r \<and>
          dget sd ''underwriting_result'' (JObj []) = JObj ur \<and>
          (dget ur ''decision'' JNull = JStr ''approved'' \<or>
           dget ur ''decision'' JNull = JStr ''conditionally_approved'') \<and>
          dget sd ''customer_details'' (JObj []) = JObj cd \<and>
          list_all (present cd) required_customer_fields \<and>
          dget sd ''loan_details'' (JObj []) = JObj ld \<and>
          list_all (present ld) required_loan_fields))
   \<and>
   (dget sd ''verification_status'' (JObj []) = JObj vs' \<and>
    dget vs' ''income_proof_confidence'' (JNum 0) = JNum 0.3
      \<longrightarrow> should_generate_sanction_letter sd = Inr False)"
proof (intro conjI impI)
  show "should_generate_sanction_letter sd = Inr True \<longleftrightarrow>
      \<not> truthy (dget sd ''sanction_letter_id'' JNull) \<and>
      (\<exists>vs ur cd ld r.
          dget sd ''verification_status'' (JObj []) = JObj vs \<and>
          truthy (dget vs ''verified'' (JBool False)) \<and>
          truthy (dget vs ''income_proof_verified'' (JBool False)) \<and>
          num_of (dget vs ''income_proof_confidence'' (JNum 0)) = Some r \<and> 0.5 \<le> r \<and>
          dget sd ''underwriting_result'' (JObj []) = JObj ur \<and>
          (dget ur ''decision'' JNull = JStr ''approved'' \<or>
           dget ur ''decision'' JNull = JStr ''conditionally_approved'') \<and>
          dget sd ''customer_details'' (JObj []) = JObj cd \<and>
          list_all (present cd) required_customer_fields \<and>
          dget sd ''loan_details'' (JObj []) = JObj ld \<and>
          list_all (present ld) required_loan_fields)"
    (is "?L \<longleftrightarrow> ?R")
  proof
    assume ?L
    then show ?R
      unfolding should_generate_sanction_letter_def Let_def
      by (auto simp: and_then_Inr_iff py_get_Inr_iff py_less_iff no_field_missing_iff
            income_proof_failed_False_iff required_customer_fields_nonempty
            required_loan_fields_nonempty
          split: if_splits)
  next
    assume ?R
    then obtain vs ur cd ld r where h:
      "\<not> truthy (dget sd ''sanction_letter_id'' JNull)"
      "dget sd ''verification_status'' (JObj []) = JObj vs"
      "truthy (dget vs ''verified'' (JBool False))"
      "truthy (dget vs ''income_proof_verified'' (JBool False))"
      "num_of (dget vs ''income_proof_confidence'' (JNum 0)) = Some r" "0.5 \<le> r"
      "dget sd ''underwriting_result'' (JObj []) = JObj ur"
      "dget ur ''decision'' JNull = JStr ''approved'' \<or>
       dget ur ''decision'' JNull = JStr ''conditionally_approved''"
      "dget sd ''customer_details'' (JObj []) = JObj cd"
      "list_all (present cd) required_customer_fields"
      "dget sd ''loan_details'' (JObj []) = JObj ld"
      "list_all (present ld) required_loan_fields"
      by blast
    have failed: "income_proof_failed (JObj vs) = Inr False"
      using h(4,5,6) by (simp add: income_proof_failed_False_iff)
    have low: "py_less (dget vs ''income_proof_confidence'' (JNum 0)) 0.5 = Inr False"
      using h(5,6) by (simp add: py_less_def)
    have cust: "no_field_missing (JObj cd) required_customer_fields = Inr True"
      using h(10) by (simp add: no_field_missing_iff)
    have loan: "no_field_missing (JObj ld) required_loan_fields = Inr True"
      using h(12) by (simp add: no_field_missing_iff)
    show ?L
      unfolding should_generate_sanction_letter_def Let_def
      using h(1,2,3,7,8,9,11) failed low cust loan
      by (auto simp: and_then_def)
  qed
next
  assume a: "dget sd ''verification_status'' (JObj []) = JObj vs' \<and>
    dget vs' ''income_proof_confidence'' (JNum 0) = JNum 0.3"
  then have low: "py_less (dget vs' ''income_proof_confidence'' (JNum 0)) 0.5 = Inr True"
    by (simp add: py_less_def)
  show "should_generate_sanction_letter sd = Inr False"
    unfolding should_generate_sanction_letter_def Let_def income_proof_failed_def
    using a low by (simp add: and_then_def)
qed

theorem should_generate_sanction_letter_iff_witness:
  "should_generate_sanction_letter ready_state_data = Inr True \<and>
   should_generate_sanction_letter
     [(''verification_status'', JObj [(''income_proof_confidence'', JNum 0.3)])] = Inr False"
proof -
  have ex: "\<exists>r::real. r * 5 = 4 \<and> 1 \<le> r * 2"
    by (rule exI [of _ "4 / 5"]) simp
  have a: "should_generate_sanction_letter ready_state_data = Inr True"
    using should_generate_sanction_letter_iff [of ready_state_data, THEN conjunct1] ex
    by (simp add: ready_state_data_def dget_def present_def required_customer_fields_def
          required_loan_fields_def)
  have b: "should_generate_sanction_letter
     [(''verification_status'', JObj [(''income_proof_confidence'', JNum 0.3)])] = Inr False"
    using should_generate_sanction_letter_iff
      [of "[(''verification_status'', JObj [(''income_proof_confidence'', JNum 0.3)])]"
          "[(''income_proof_confidence'', JNum 0.3)]", THEN conjunct2]
    by (simp add: dget_def)
  show ?thesis using a b by simp
qed

section \<open>Properties of the conversation state and the stage machine\<close>

lemma ConversationStage_of_value: "ConversationStage_of (stage_value st) = Inr st"
  by (cases st) (simp_all add: ConversationStage_of_def)

lemma Decision_of_value: "Decision_of (decision_value dec) = Inr dec"
  by (cases dec) (simp_all add: Decision_of_def)

lemma from_dict_to_dict:
  assumes "fromisoformat env (isoformat env (start_time s)) = Some (start_time s)"
  shows "from_dict env (to_dict env s) = Inr (s\<lparr> gemini_history := [], recursion_depth := 0 \<rparr>)"
  using assms
  by (simp add: from_dict_def to_dict_def new_state_def get_or_def and_then_def Let_def
        ConversationStage_of_value Decision_of_value)

text \<open>
  Claim C10.  Serialisation round-trips.  Reading back what \<^verbatim>\<open>to_dict\<close> wrote gives the
  state it was written from, with the two attributes \<^verbatim>\<open>to_dict\<close> does not write
  (\<open>gemini_history\<close>, \<open>recursion_depth\<close>) at their defaults; so every serialised entry is
  restored, and writing the state read back gives the same dictionary again.  The
  library's \<^verbatim>\<open>fromisoformat\<close> is taken to read back the text \<^verbatim>\<open>isoformat\<close> wrote for the
  start time.
\<close>

theorem to_dict_from_dict_round_trip:
  assumes "fromisoformat env (isoformat env (start_time s)) = Some (start_time s)"
  shows "from_dict env (to_dict env s) = Inr (s\<lparr> gemini_history := [], recursion_depth := 0 \<rparr>)
       \<and> to_dict env (s\<lparr> gemini_history := [], recursion_depth := 0 \<rparr>) = to_dict env s"
  using from_dict_to_dict [OF assms] by (simp add: to_dict_def)

theorem to_dict_from_dict_round_trip_witness:
  "fromisoformat example_env (isoformat example_env (start_time (new_state example_env)))
     = Some (start_time (new_state example_env))
   \<and> from_dict example_env (to_dict example_env (new_state example_env))
     = Inr ((new_state example_env)\<lparr> gemini_history := [], recursion_depth := 0 \<rparr>)"
  using to_dict_from_dict_round_trip [of example_env "new_state example_env"]
  by (simp add: example_env_def)



text \<open>
  Claim C6.  A state dictionary whose stage is not one of the seven names does not reach
  the fallback branch of the stage machine: the conversion that precedes the \<^verbatim>\<open>try\<close> block
  raises ValueError, and the method raises with it.
\<close>

theorem determine_next_step_unknown_stage_raises:
  "determine_next_step example_env (AsDict unknown_stage_dict) = Inl ValueError"
  by (simp add: determine_next_step_def from_dict_def unknown_stage_dict_def to_dict_def
        new_state_def example_env_def get_or_def and_then_def ConversationStage_of_def Let_def)

lemma next_step_recursion_depth: "recursion_depth (next_step s) = recursion_depth s"
  by (cases "stage s"; cases "decision s") (simp_all add: next_step_def Let_def)

lemma from_dict_recursion_depth: "from_dict env data = Inr s \<Longrightarrow> recursion_depth s = 0"
  by (auto simp: from_dict_def new_state_def Let_def and_then_def
      split: option.splits sum.splits)

lemma process_message_recursion_depth:
  "recursion_depth s \<le> 25 \<Longrightarrow>
   recursion_depth (snd (process_message env g s m)) = (recursion_depth s) \<or>
   recursion_depth (snd (process_message env g s m)) = 0"
  by (auto simp: process_message_def Let_def add_message_def get_or_def
      dest: from_dict_recursion_depth
      split: sum.splits graph_result.splits option.splits state_entry.splits)

text \<open>
  Claim C2.  The loop-guard counter does not count: a pass of the stage machine leaves
  \<open>recursion_depth\<close> as it was, and a call of \<^verbatim>\<open>process_message\<close> on a new conversation ends
  with the counter at 0, whatever the graph did; the test against 25 therefore never
  succeeds.
\<close>

theorem loop_guard_counter_never_increases:
  "recursion_depth (next_step s) = recursion_depth s \<and>
   recursion_depth (snd (process_message env graph_invoke (new_state env) user_message)) = 0"
proof
  show "recursion_depth (next_step s) = recursion_depth s" by (rule next_step_recursion_depth)
  have "recursion_depth (new_state env) \<le> 25" by (simp add: new_state_def)
  from process_message_recursion_depth [OF this]
  show "recursion_depth (snd (process_message env graph_invoke (new_state env) user_message)) = 0"
    by (auto simp: new_state_def)
qed

section \<open>Properties of the conversation driver\<close>

theorem process_message_failure_decision_counterexample:
  "resp_decision (fst (process_message example_env failing_graph (new_state example_env) ''Hello''))
     \<noteq> decision_value (decision (new_state example_env))"
  by (simp add: process_message_def failing_graph_def new_state_def Let_def add_message_def)

text \<open>
  Claim C3, amended.  When the run of the graph raises, \<^verbatim>\<open>process_message\<close> still returns
  a response with all its entries: the apology as text, the stage of the state, the
  next agent \<open>generate_response\<close>, the serialised state, and as decision the fixed word
  \<open>error\<close>.  The decision held by the state is not touched: the returned state carries
  it, and differs from the state before the call by the user's message and one entry in
  the error log.
\<close>

theorem process_message_on_failure:
  assumes "graph_invoke user_message = Inl e"
  shows "resp_response (fst (process_message env graph_invoke s user_message)) = apology
    \<and> resp_stage (fst (process_message env graph_invoke s user_message)) = stage_value (stage s)
    \<and> resp_decision (fst (process_message env graph_invoke s user_message)) = ''error''
    \<and> resp_next_agent (fst (process_message env graph_invoke s user_message))
        = JStr ''generate_response''
    \<and> resp_state (fst (process_message env graph_invoke s user_message))
        = to_dict env (snd (process_message env graph_invoke s user_message))
    \<and> d_decision (resp_state (fst (process_message env graph_invoke s user_message)))
        = Some (decision_value (decision s))
    \<and> snd (process_message env graph_invoke s user_message)
        = (add_message env ''user'' user_message s)\<lparr> errors := errors s @
             [[(''type'', JStr ''GraphExecutionError''), (''message'', JStr e),
               (''timestamp'', JStr (isoformat env (now env)))]] \<rparr>"
  using assms
  by (simp add: process_message_def Let_def add_message_def to_dict_def)

theorem process_message_on_failure_witness:
  "failing_graph ''Hello'' = Inl ''node returned None'' \<and>
   resp_response (fst (process_message example_env failing_graph (new_state example_env) ''Hello''))
     = apology \<and>
   resp_decision (fst (process_message example_env failing_graph (new_state example_env) ''Hello''))
     = ''error'' \<and>
   d_decision (resp_state
      (fst (process_message example_env failing_graph (new_state example_env) ''Hello'')))
     = Some ''pending''"
  using process_message_on_failure
    [of failing_graph "''Hello''" "''node returned None''" example_env "new_state example_env"]
  by (simp add: failing_graph_def new_state_def to_dict_def add_message_def)

section \<open>Properties of the state merge\<close>

lemma merge_uploads_keys:
  "fst ` set (merge_uploads uploads target) = fst ` set uploads \<union> fst ` set target"
  unfolding merge_uploads_def
proof (induction uploads arbitrary: target)
  case Nil
  show ?case by simp
next
  case (Cons entry uploads)
  show ?case
    by (cases entry) (auto simp: Cons.IH dom_update)
qed

lemma add_new_messages_all:
  assumes "list_all has_role_and_content new"
  shows "add_new_messages stamp i new (Has ms) =
           (Has (ms @ map (\<lambda>(k, msg). appended_entry stamp k msg) (zip [i ..< i + length new] new)),
            None)"
  using assms
proof (induction new arbitrary: i ms)
  case Nil
  show ?case by simp
next
  case (Cons msg new)
  from Cons.prems have here: "has_role_and_content msg"
    and rest: "list_all has_role_and_content new"
    by simp_all
  from here obtain role content where
    rc: "map_of msg ''role'' = Some role" "map_of msg ''content'' = Some content"
    unfolding has_role_and_content_def by blast
  have up: "[i ..< Suc (i + length new)] = i # [Suc i ..< Suc (i + length new)]"
    by (rule upt_conv_Cons) simp
  show ?case
    using rc Cons.IH [OF rest, of "Suc i"]
    by (simp add: up appended_entry_def dget_def del: upt_Suc)
qed

lemma add_new_messages_keeps:
  "\<exists>more. fst (add_new_messages stamp i new (Has ms)) = Has (ms @ more)"
proof (induction new arbitrary: i ms)
  case Nil
  show ?case by simp
next
  case (Cons msg new)
  show ?case
  proof (cases "map_of msg ''role''")
    case None
    then show ?thesis by simp
  next
    case (Some role)
    show ?thesis
    proof (cases "map_of msg ''content''")
      case None
      with Some show ?thesis by simp
    next
      case (Some content)
      from Cons.IH [of "Suc i"
          "ms @ [[(''role'', role), (''content'', content), (''timestamp'', JStr (stamp i))]]"]
      obtain more where
        "fst (add_new_messages stamp (Suc i) new
           (Has (ms @ [[(''role'', role), (''content'', content),
                        (''timestamp'', JStr (stamp i))]]))) =
         Has ((ms @ [[(''role'', role), (''content'', content),
                      (''timestamp'', JStr (stamp i))]]) @ more)"
        by blast
      with \<open>map_of msg ''role'' = Some role\<close> Some show ?thesis by simp
    qed
  qed
qed

lemma messages_after_basic:
  "sm_messages (update_basic_fields e (update_income_proof e (update_document_uploads e s)))
     = sm_messages s"
  "sm_has_add_message (update_basic_fields e (update_income_proof e (update_document_uploads e s)))
     = sm_has_add_message s"
  by (simp_all add: update_basic_fields_def update_income_proof_def update_document_uploads_def
        Let_def split: option.splits)

lemma uploads_after_basic:
  "sm_document_uploads (update_basic_fields e (update_income_proof e s)) = sm_document_uploads s"
  by (simp add: update_basic_fields_def update_income_proof_def Let_def split: option.splits)

lemma messages_after_remaining:
  "sm_messages (update_remaining_fields e s) = sm_messages s"
  by (simp add: update_remaining_fields_def Let_def split: option.splits)

lemma uploads_after_remaining:
  "sm_document_uploads (update_remaining_fields e s) = sm_document_uploads s"
  by (simp add: update_remaining_fields_def Let_def split: option.splits)

lemma uploads_after_messages:
  "sm_document_uploads (fst (update_messages stamp e s)) = sm_document_uploads s"
  by (simp add: update_messages_def Let_def split: option.splits prod.splits)

lemma merged_messages:
  "sm_messages (fst (update_state_from_dict stamp s e)) =
   sm_messages (fst (update_messages stamp e
      (update_basic_fields e (update_income_proof e (update_document_uploads e s)))))"
  by (simp add: update_state_from_dict_def Let_def messages_after_remaining
      split: prod.splits option.splits)

lemma merged_uploads:
  "sm_document_uploads (fst (update_state_from_dict stamp s e)) =
   sm_document_uploads (update_document_uploads e s)"
proof -
  let ?s3 = "update_basic_fields e (update_income_proof e (update_document_uploads e s))"
  have "sm_document_uploads (fst (update_state_from_dict stamp s e)) =
        sm_document_uploads (fst (update_messages stamp e ?s3))"
    by (simp add: update_state_from_dict_def Let_def uploads_after_remaining
        split: prod.splits option.splits)
  then show ?thesis
    by (simp add: uploads_after_messages uploads_after_basic)
qed

text \<open>
  Claim C1.  The merge does reduce the messages of the state.  The state in memory holds
  the user's message and the reply appended after the state was saved; the snapshot in
  the file still holds the first message only.  The merge returns without an exception
  and leaves the state with the snapshot's list: one message, the reply gone.
\<close>

theorem merge_discards_newer_message:
  "sm_messages memory_state = Has [first_message, second_message] \<and>
   e_messages stale_snapshot = Some [first_message] \<and>
   snd (update_state_from_dict example_stamp memory_state stale_snapshot) = None \<and>
   sm_messages (fst (update_state_from_dict example_stamp memory_state stale_snapshot))
     = Has [first_message] \<and>
   current_msg_count (sm_messages (fst (update_state_from_dict example_stamp memory_state
      stale_snapshot))) < current_msg_count (sm_messages memory_state)"
  by (simp add: update_state_from_dict_def update_messages_def update_basic_fields_def
        update_income_proof_def update_document_uploads_def update_remaining_fields_def
        merge_uploads_def Let_def memory_state_def stale_snapshot_def no_snapshot_def)

text \<open>
  What the merge does in general, on a state that has the attributes \<open>messages\<close> (a
  list) and \<open>document_uploads\<close>.  When the snapshot has more messages than the state:
  an object with \<^verbatim>\<open>add_message\<close> keeps its messages and gets exactly the snapshot's
  messages beyond its count appended (their role and content, with a new timestamp),
  provided each of them has a role and a content; an object without \<^verbatim>\<open>add_message\<close>
  gets the snapshot's list in place of its own.  When the snapshot has no more messages
  than the state, the state's list is replaced by the snapshot's.  Every key of the
  snapshot's document uploads is a key of the merged state's document uploads.
\<close>

lemma merge_appends_or_replaces:
  assumes "sm_messages s = Has own" and "e_messages e = Some loaded"
    and "sm_document_uploads s \<noteq> NoAttr" and "e_document_uploads e = Some uploads"
  shows "(length own < length loaded \<and> sm_has_add_message s \<longrightarrow>
            (\<exists>more. sm_messages (fst (update_state_from_dict stamp s e)) = Has (own @ more)))
       \<and> (length own < length loaded \<and> \<not> sm_has_add_message s \<longrightarrow>
            sm_messages (fst (update_state_from_dict stamp s e)) = Has loaded)
       \<and> (length own < length loaded \<and> sm_has_add_message s \<and>
            list_all has_role_and_content (drop (length own) loaded) \<longrightarrow>
            snd (update_state_from_dict stamp s e) = None \<and>
            sm_messages (fst (update_state_from_dict stamp s e)) =
              Has (own @ map (\<lambda>(k, msg). appended_entry stamp k msg)
                           (zip [length own ..< length loaded] (drop (length own) loaded))))
       \<and> (length loaded \<le> length own \<longrightarrow>
            sm_messages (fst (update_state_from_dict stamp s e)) = Has loaded)
       \<and> (\<exists>merged. sm_document_uploads (fst (update_state_from_dict stamp s e)) = Has merged \<and>
            fst ` set uploads \<subseteq> fst ` set merged)"
proof (intro conjI impI)
  let ?s3 = "update_basic_fields e (update_income_proof e (update_document_uploads e s))"
  have m3: "sm_messages ?s3 = Has own" and a3: "sm_has_add_message ?s3 = sm_has_add_message s"
    using assms(1) by (simp_all add: messages_after_basic)
  {
    assume h: "length own < length loaded \<and> sm_has_add_message s"
    obtain more where
      "fst (add_new_messages stamp (length own) (drop (length own) loaded) (Has own)) = Has (own @ more)"
      using add_new_messages_keeps by blast
    then show "\<exists>more. sm_messages (fst (update_state_from_dict stamp s e)) = Has (own @ more)"
      using h assms(2) m3 a3
      by (auto simp: merged_messages update_messages_def Let_def split: prod.splits)
  }
  {
    assume "length own < length loaded \<and> \<not> sm_has_add_message s"
    then show "sm_messages (fst (update_state_from_dict stamp s e)) = Has loaded"
      using assms(2) m3 a3
      by (simp add: merged_messages update_messages_def Let_def)
  }
  {
    assume h: "length own < length loaded \<and> sm_has_add_message s \<and>
            list_all has_role_and_content (drop (length own) loaded)"
    then have all: "list_all has_role_and_content (drop (length own) loaded)" by simp
    have len: "length own + length (drop (length own) loaded) = length loaded"
      using h by simp
    have um: "update_messages stamp e ?s3 =
        (?s3\<lparr> sm_messages := Has (own @ map (\<lambda>(k, msg). appended_entry stamp k msg)
                           (zip [length own ..< length loaded] (drop (length own) loaded))) \<rparr>, None)"
      using h assms(2) m3 a3 add_new_messages_all [OF all, of stamp "length own" own]
      by (simp add: update_messages_def Let_def len del: length_drop)
    show "snd (update_state_from_dict stamp s e) = None"
      by (simp add: update_state_from_dict_def Let_def um)
    show "sm_messages (fst (update_state_from_dict stamp s e)) =
              Has (own @ map (\<lambda>(k, msg). appended_entry stamp k msg)
                           (zip [length own ..< length loaded] (drop (length own) loaded)))"
      by (simp add: merged_messages um)
  }
  {
    assume "length loaded \<le> length own"
    then show "sm_messages (fst (update_state_from_dict stamp s e)) = Has loaded"
      using assms(2) m3
      by (simp add: merged_messages update_messages_def Let_def)
  }
  show "\<exists>merged. sm_document_uploads (fst (update_state_from_dict stamp s e)) = Has merged \<and>
            fst ` set uploads \<subseteq> fst ` set merged"
    using assms(3,4)
    by (simp add: merged_uploads update_document_uploads_def merge_uploads_keys)
qed

lemma merge_appends_or_replaces_example:
  "sm_messages memory_state = Has [first_message, second_message] \<and>
   e_messages newer_snapshot = Some [first_message, second_message, first_message] \<and>
   sm_document_uploads memory_state \<noteq> NoAttr \<and>
   e_document_uploads newer_snapshot = Some [(''doc_1'', JObj [(''verified'', JBool False)])] \<and>
   sm_messages (fst (update_state_from_dict example_stamp memory_state newer_snapshot)) =
     Has [first_message, second_message, appended_entry example_stamp 2 first_message] \<and>
   (\<exists>merged. sm_document_uploads (fst (update_state_from_dict example_stamp memory_state
        newer_snapshot)) = Has merged \<and> ''doc_1'' \<in> fst ` set merged) \<and>
   e_messages stale_snapshot = Some [first_message] \<and>
   sm_messages (fst (update_state_from_dict example_stamp memory_state stale_snapshot)) =
     Has [first_message]"
proof -
  have h1: "sm_messages memory_state = Has [first_message, second_message]"
    by (simp add: memory_state_def)
  have h2: "e_messages newer_snapshot = Some [first_message, second_message, first_message]"
    by (simp add: newer_snapshot_def)
  have h3: "sm_document_uploads memory_state \<noteq> NoAttr"
    by (simp add: memory_state_def)
  have h4: "e_document_uploads newer_snapshot =
      Some [(''doc_1'', JObj [(''verified'', JBool False)])]"
    by (simp add: newer_snapshot_def)
  note merged = merge_appends_or_replaces [OF h1 h2 h3 h4, of example_stamp]
  have add: "sm_has_add_message memory_state" by (simp add: memory_state_def)
  have ok: "has_role_and_content first_message"
    by (simp add: has_role_and_content_def first_message_def)
  have up: "[2 ..< 3] = [2::nat]" by (simp add: upt_rec)
  have c1: "sm_messages (fst (update_state_from_dict example_stamp memory_state newer_snapshot)) =
     Has [first_message, second_message, appended_entry example_stamp 2 first_message]"
    using merged [THEN conjunct2, THEN conjunct2, THEN conjunct1] add ok
    by (simp add: up numeral_2_eq_2)
  have c2: "\<exists>merged. sm_document_uploads (fst (update_state_from_dict example_stamp memory_state
        newer_snapshot)) = Has merged \<and> ''doc_1'' \<in> fst ` set merged"
    using merged [THEN conjunct2, THEN conjunct2, THEN conjunct2, THEN conjunct2] by simp
  have h5: "e_messages stale_snapshot = Some [first_message]"
    by (simp add: stale_snapshot_def)
  have h6: "e_document_uploads stale_snapshot =
      Some [(''doc_1'', JObj [(''verified'', JBool False)])]"
    by (simp add: stale_snapshot_def)
  have c3: "sm_messages (fst (update_state_from_dict example_stamp memory_state stale_snapshot)) =
     Has [first_message]"
    using merge_appends_or_replaces [OF h1 h5 h3 h6, of example_stamp] by simp
  show ?thesis using h1 h2 h3 h4 h5 c1 c2 c3 by blast
qed

section \<open>Properties of the document verifier\<close>

lemma and_then_Inr [simp]: "and_then (Inr x) f = f x"
  by (simp add: and_then_def)

lemma analyze_document_range:
  "0 \<le> analyze_document draws doc_type \<and> analyze_document draws doc_type \<le> 1"
  by (simp add: analyze_document_def split: prod.splits)

lemma is_unverified_dict: "is_unverified (JObj cd) doc_type = Inr (unverified cd doc_type)"
  by (simp add: is_unverified_def unverified_def)

lemma any_unverified_dict:
  "any_unverified (JObj cd) ds = Inr (list_ex (unverified cd) ds)"
  by (induction ds) (simp_all add: is_unverified_dict)

text \<open>On a dictionary the loop is a fold.\<close>

lemma scan_documents_dict:
  "scan_documents draws clock (JObj cd) ds acc =
     Inr (fold (\<lambda>doc_type acc. if unverified cd doc_type
                               then score_document draws clock doc_type acc else acc) ds acc)"
  by (induction ds arbitrary: acc) (simp_all add: is_unverified_dict)

lemma map_of_score_document:
  "map_of (verification_results (score_document draws clock d acc)) k =
     (if k = d @ ''_status''
        then Some (JStr (if analyze_document draws d \<ge> 0.5 then ''approved'' else ''rejected''))
      else if k = d @ ''_verification_time'' then Some (JStr clock)
      else if k = d @ ''_confidence'' then Some (JNum (analyze_document draws d))
      else if k = d @ ''_verified'' then Some (JBool (analyze_document draws d \<ge> 0.5))
      else map_of (verification_results acc) k)"
  by (simp add: score_document_def Let_def update_conv')

lemma scan_other_key:
  assumes "\<forall>d \<in> set ds. unverified cd d \<longrightarrow> k \<notin> set (result_keys d)"
  shows "map_of (verification_results
           (fold (\<lambda>doc_type acc. if unverified cd doc_type
                                 then score_document draws clock doc_type acc else acc) ds acc)) k
         = map_of (verification_results acc) k"
  using assms
proof (induction ds arbitrary: acc)
  case Nil
  show ?case by simp
next
  case (Cons d ds)
  show ?case
  proof (cases "unverified cd d")
    case True
    with Cons.prems have "k \<notin> set (result_keys d)" by simp
    then have "map_of (verification_results (score_document draws clock d acc)) k
        = map_of (verification_results acc) k"
      by (simp add: map_of_score_document result_keys_def)
    with True Cons show ?thesis by simp
  next
    case False
    with Cons show ?thesis by simp
  qed
qed

text \<open>Keys of different document types, and the other keys in play, do not collide.\<close>

lemma result_keys_disjoint:
  assumes "d \<in> set document_types" "d' \<in> set document_types" "d \<noteq> d'"
  shows "set (result_keys d) \<inter> set (result_keys d') = {}"
  using assms by (auto simp: document_types_def result_keys_def)

lemma uploaded_not_result_key:
  assumes "d \<in> set document_types" "d' \<in> set document_types"
  shows "d @ ''_uploaded'' \<notin> set (result_keys d')"
  using assms by (auto simp: document_types_def result_keys_def)

lemma result_key_not_aggregate:
  assumes "d \<in> set document_types" "k \<in> set (result_keys d)"
  shows "k \<notin> set aggregate_keys"
  using assms by (auto simp: document_types_def result_keys_def aggregate_keys_def)

lemma uploaded_not_aggregate:
  assumes "d \<in> set document_types"
  shows "d @ ''_uploaded'' \<notin> set aggregate_keys"
  using assms by (auto simp: document_types_def aggregate_keys_def)

lemma distinct_document_types: "distinct document_types"
  by (simp add: document_types_def)

lemma scan_scored_key:
  assumes "d \<in> set ds" "unverified cd d" "distinct ds" "set ds \<subseteq> set document_types"
    and "k \<in> set (result_keys d)"
  shows "map_of (verification_results
           (fold (\<lambda>doc_type acc. if unverified cd doc_type
                                 then score_document draws clock doc_type acc else acc) ds acc)) k
         = map_of (verification_results (score_document draws clock d acc')) k"
  using assms(1,3,4)
proof (induction ds arbitrary: acc)
  case Nil
  then show ?case by simp
next
  case (Cons x ds)
  show ?case
  proof (cases "x = d")
    case True
    have other: "\<forall>d' \<in> set ds. unverified cd d' \<longrightarrow> k \<notin> set (result_keys d')"
    proof (intro ballI impI)
      fix d' assume "d' \<in> set ds" "unverified cd d'"
      with Cons.prems True have "d' \<in> set document_types" "d \<in> set document_types" "d \<noteq> d'"
        by auto
      from result_keys_disjoint [OF this(2) this(1) this(3)] assms(5)
      show "k \<notin> set (result_keys d')" by auto
    qed
    have same: "map_of (verification_results (score_document draws clock d acc)) k
        = map_of (verification_results (score_document draws clock d acc')) k"
      using assms(5) by (auto simp: map_of_score_document result_keys_def)
    show ?thesis
      using True assms(2) scan_other_key [OF other] same by simp
  next
    case False
    with Cons.prems have "d \<in> set ds" "distinct ds" "set ds \<subseteq> set document_types" by auto
    from Cons.IH [OF this] show ?thesis by simp
  qed
qed

lemma map_of_dict_update:
  assumes "distinct (map fst other)"
  shows "map_of (dict_update target other) k =
           (case map_of other k of Some v \<Rightarrow> Some v | None \<Rightarrow> map_of target k)"
  using assms unfolding dict_update_def
proof (induction other arbitrary: target)
  case Nil
  show ?case by simp
next
  case (Cons entry other)
  obtain k' v' where entry: "entry = (k', v')" by (cases entry)
  from Cons.prems entry have d: "distinct (map fst other)" and fresh: "k' \<notin> fst ` set other"
    by auto
  from fresh have none: "map_of other k' = None"
    by (simp add: map_of_eq_None_iff)
  show ?case
    using Cons.IH [OF d, of "AList.update k' v' target"] none
    by (auto simp: entry update_conv' split: option.splits)
qed

lemma distinct_score_document:
  "distinct (map fst (verification_results acc)) \<Longrightarrow>
   distinct (map fst (verification_results (score_document draws clock d acc)))"
  by (simp add: score_document_def Let_def distinct_update)

lemma distinct_scan:
  "distinct (map fst (verification_results acc)) \<Longrightarrow>
   distinct (map fst (verification_results
     (fold (\<lambda>doc_type acc. if unverified cd doc_type
                           then score_document draws clock doc_type acc else acc) ds acc)))"
  by (induction ds arbitrary: acc) (simp_all add: distinct_score_document)

lemma scan_flags:
  "modified (fold (\<lambda>doc_type acc. if unverified cd doc_type
                           then score_document draws clock doc_type acc else acc) ds acc)
     = (modified acc \<or> list_ex (unverified cd) ds)"
  "(documents_processed (fold (\<lambda>doc_type acc. if unverified cd doc_type
                           then score_document draws clock doc_type acc else acc) ds acc) > 0)
     = (documents_processed acc > 0 \<or> list_ex (unverified cd) ds)"
  by (induction ds arbitrary: acc) (auto simp: score_document_def Let_def)

lemma scanned_flags:
  "modified (scanned draws clock cd) = list_ex (unverified cd) document_types"
  "(documents_processed (scanned draws clock cd) > 0) = list_ex (unverified cd) document_types"
  by (simp_all add: scanned_def scan_flags)

lemma distinct_final_results:
  "distinct (map fst (final_results clock (scanned draws clock cd)))"
proof -
  have "distinct (map fst (verification_results (scanned draws clock cd)))"
    unfolding scanned_def by (rule distinct_scan) simp
  then show ?thesis
    by (simp add: final_results_def distinct_update)
qed

lemma map_of_final_results:
  "k \<notin> set aggregate_keys \<Longrightarrow>
   map_of (final_results clock acc) k = map_of (verification_results acc) k"
  by (simp add: final_results_def update_conv' aggregate_keys_def)

text \<open>What the method returns on a well-formed document.\<close>

lemma process_documents_dict:
  assumes "dget sd ''customer_details'' (JObj []) = JObj cd" and "messages_appendable sd"
  shows "\<exists>sd'. process_documents draws fmt clock sd =
             Inr (sd', list_ex (unverified cd) document_types) \<and>
           map_of sd' ''customer_details'' =
             Some (JObj (dict_update cd (final_results clock (scanned draws clock cd))))"
proof (cases "list_ex (unverified cd) document_types")
  case False
  then have n: "\<not> documents_processed (scanned draws clock cd) > 0"
    and m: "\<not> modified (scanned draws clock cd)"
    by (simp_all add: scanned_flags)
  show ?thesis
    using assms(1) n m False
    by (simp add: process_documents_def Let_def scan_documents_dict scanned_def [symmetric]
          final_results_def update_conv')
next
  case True
  then have n: "documents_processed (scanned draws clock cd) > 0"
    and m: "modified (scanned draws clock cd)"
    by (simp_all add: scanned_flags)
  let ?sd = "if map_of sd ''messages'' = None
             then AList.update ''messages'' (JList []) sd else sd"
  from assms(2) obtain xs where xs: "dget ?sd ''messages'' JNull = JList xs"
    by (auto simp: messages_appendable_def dget_def update_conv'
        split: option.splits json.splits)
  show ?thesis
    using assms(1) n m True xs
    by (simp add: process_documents_def Let_def scan_documents_dict scanned_def [symmetric]
          final_results_def update_conv')
qed

lemma scored_lookup:
  assumes "d \<in> set document_types" "unverified cd d" "k \<in> set (result_keys d)"
  shows "map_of (dict_update cd (final_results clock (scanned draws clock cd))) k =
         map_of (verification_results (score_document draws clock d acc)) k"
proof -
  have na: "k \<notin> set aggregate_keys"
    using assms(1,3) by (rule result_key_not_aggregate)
  have sc: "map_of (verification_results (scanned draws clock cd)) k =
        map_of (verification_results (score_document draws clock d acc)) k"
    unfolding scanned_def
    using assms distinct_document_types by (intro scan_scored_key) simp_all
  have some: "map_of (verification_results (score_document draws clock d acc)) k \<noteq> None"
    using assms(3) by (auto simp: map_of_score_document result_keys_def)
  show ?thesis
    using some
    by (auto simp: map_of_dict_update [OF distinct_final_results] map_of_final_results [OF na] sc
        split: option.splits)
qed

lemma untouched_lookup:
  assumes "\<forall>d \<in> set document_types. unverified cd d \<longrightarrow> k \<notin> set (result_keys d)"
    and "k \<notin> set aggregate_keys"
  shows "map_of (dict_update cd (final_results clock (scanned draws clock cd))) k = map_of cd k"
proof -
  have "map_of (verification_results (scanned draws clock cd)) k = None"
    unfolding scanned_def using scan_other_key [OF assms(1)] by simp
  then show ?thesis
    by (simp add: map_of_dict_update [OF distinct_final_results]
          map_of_final_results [OF assms(2)])
qed

lemma not_scored_lookup:
  assumes "d \<in> set document_types" "\<not> unverified cd d" "k \<in> set (result_keys d)"
  shows "map_of (dict_update cd (final_results clock (scanned draws clock cd))) k = map_of cd k"
proof (rule untouched_lookup)
  show "\<forall>d' \<in> set document_types. unverified cd d' \<longrightarrow> k \<notin> set (result_keys d')"
  proof (intro ballI impI)
    fix d' assume d': "d' \<in> set document_types" "unverified cd d'"
    with assms(2) have "d \<noteq> d'" by auto
    from result_keys_disjoint [OF assms(1) d'(1) this] assms(3)
    show "k \<notin> set (result_keys d')" by auto
  qed
  show "k \<notin> set aggregate_keys"
    using assms(1,3) by (rule result_key_not_aggregate)
qed

lemma uploaded_lookup:
  assumes "d \<in> set document_types"
  shows "map_of (dict_update cd (final_results clock (scanned draws clock cd))) (d @ ''_uploaded'')
         = map_of cd (d @ ''_uploaded'')"
  using assms
  by (intro untouched_lookup) (simp_all add: uploaded_not_result_key uploaded_not_aggregate)

text \<open>
  Claim C8.  Every document the verifier processes (uploaded and not verified) gets a
  confidence score between 0 and 1, a verified flag that is true exactly when the score
  is at least 0.5, and the status approved in that case and rejected otherwise; a score
  of exactly 0.5 is verified and approved.  On a state document whose customer details
  are a dictionary and whose messages can be appended to, the method returns and
  reports a modification.
\<close>

theorem processed_document_flag_and_range:
  assumes "doc_type \<in> set document_types"
    and "dget state_data ''customer_details'' (JObj []) = JObj cd"
    and "unverified cd doc_type"
    and "messages_appendable state_data"
  shows "\<exists>state_data' cd'.
           process_documents draws fmt clock state_data = Inr (state_data', True) \<and>
           map_of state_data' ''customer_details'' = Some (JObj cd') \<and>
           map_of cd' (doc_type @ ''_confidence'') = Some (JNum (analyze_document draws doc_type)) \<and>
           map_of cd' (doc_type @ ''_verified'') =
             Some (JBool (analyze_document draws doc_type \<ge> 0.5)) \<and>
           map_of cd' (doc_type @ ''_status'') =
             Some (JStr (if analyze_document draws doc_type \<ge> 0.5
                         then ''approved'' else ''rejected'')) \<and>
           (analyze_document draws doc_type = 0.5 \<longrightarrow>
              map_of cd' (doc_type @ ''_verified'') = Some (JBool True) \<and>
              map_of cd' (doc_type @ ''_status'') = Some (JStr ''approved'')) \<and>
           0 \<le> analyze_document draws doc_type \<and> analyze_document draws doc_type \<le> 1"
proof -
  have ex: "list_ex (unverified cd) document_types"
    using assms(1,3) by (auto simp: list_ex_iff)
  from process_documents_dict [OF assms(2,4), of draws fmt clock] ex
  obtain sd' where sd': "process_documents draws fmt clock state_data = Inr (sd', True)"
    "map_of sd' ''customer_details'' =
       Some (JObj (dict_update cd (final_results clock (scanned draws clock cd))))"
    by auto
  let ?cd' = "dict_update cd (final_results clock (scanned draws clock cd))"
  have look: "\<And>k. k \<in> set (result_keys doc_type) \<Longrightarrow>
      map_of ?cd' k = map_of (verification_results (score_document draws clock doc_type
        \<lparr> verification_results = [], overall_confidence = 0,
          documents_processed = 0, modified = False \<rparr>)) k"
    using assms(1,3) by (rule scored_lookup)
  have c: "map_of ?cd' (doc_type @ ''_confidence'') = Some (JNum (analyze_document draws doc_type))"
    by (subst look) (simp_all add: result_keys_def map_of_score_document)
  have v: "map_of ?cd' (doc_type @ ''_verified'') =
      Some (JBool (analyze_document draws doc_type \<ge> 0.5))"
    by (subst look) (simp_all add: result_keys_def map_of_score_document)
  have s: "map_of ?cd' (doc_type @ ''_status'') =
      Some (JStr (if analyze_document draws doc_type \<ge> 0.5 then ''approved'' else ''rejected''))"
    by (subst look) (simp_all add: result_keys_def map_of_score_document)
  show ?thesis
    using sd' c v s analyze_document_range [of draws doc_type]
    by (intro exI [of _ sd'] exI [of _ ?cd']) simp
qed

theorem processed_document_flag_and_range_witness:
  "''business_financial_statement'' \<in> set document_types \<and>
   dget uploaded_state ''customer_details'' (JObj []) =
     JObj [(''business_financial_statement_uploaded'', JBool True)] \<and>
   unverified [(''business_financial_statement_uploaded'', JBool True)]
     ''business_financial_statement'' \<and>
   messages_appendable uploaded_state \<and>
   analyze_document boundary_draws ''business_financial_statement'' = 0.5 \<and>
   (\<exists>state_data' cd'.
      process_documents boundary_draws example_fmt example_clock uploaded_state
        = Inr (state_data', True) \<and>
      map_of state_data' ''customer_details'' = Some (JObj cd') \<and>
      map_of cd' ''business_financial_statement_verified'' = Some (JBool True) \<and>
      map_of cd' ''business_financial_statement_status'' = Some (JStr ''approved''))"
proof -
  have h1: "''business_financial_statement'' \<in> set document_types"
    by (simp add: document_types_def)
  have h2: "dget uploaded_state ''customer_details'' (JObj []) =
     JObj [(''business_financial_statement_uploaded'', JBool True)]"
    by (simp add: uploaded_state_def dget_def)
  have h3: "unverified [(''business_financial_statement_uploaded'', JBool True)]
     ''business_financial_statement''"
    by (simp add: unverified_def dget_def)
  have h4: "messages_appendable uploaded_state"
    by (simp add: messages_appendable_def uploaded_state_def)
  have half: "analyze_document boundary_draws ''business_financial_statement'' = 0.5"
    by (simp add: analyze_document_def boundary_draws_def)
  from processed_document_flag_and_range [OF h1 h2 h3 h4, of boundary_draws example_fmt example_clock]
  have "\<exists>state_data' cd'.
      process_documents boundary_draws example_fmt example_clock uploaded_state
        = Inr (state_data', True) \<and>
      map_of state_data' ''customer_details'' = Some (JObj cd') \<and>
      map_of cd' ''business_financial_statement_verified'' = Some (JBool True) \<and>
      map_of cd' ''business_financial_statement_status'' = Some (JStr ''approved'')"
    by (auto simp: half)
  with h1 h2 h3 h4 half show ?thesis by blast
qed

text \<open>
  Claim C7.  The mutation of the document verifier is not idempotent.  A cycle that
  scores the only uploaded document 0.3 stores it as rejected and not verified; the
  readiness predicate is true again on the state that cycle left; and the next cycle
  scores the same document once more, here 0.8, and replaces its confidence, its flag
  and its status.
\<close>

theorem rejected_document_scored_again:
  "process_documents low_draws example_fmt example_clock uploaded_state
     = Inr (rejected_state, True) \<and>
   has_unverified_documents rejected_state = Inr True \<and>
   process_documents high_draws example_fmt example_clock rejected_state
     = Inr (rescored_state, True)"
proof (intro conjI)
  have score: "analyze_document low_draws ''business_financial_statement'' = 0.3"
    by (simp add: analyze_document_def low_draws_def)
  have again: "analyze_document high_draws ''business_financial_statement'' = 0.8"
    by (simp add: analyze_document_def high_draws_def)
  show "process_documents low_draws example_fmt example_clock uploaded_state
     = Inr (rejected_state, True)"
    by (simp add: process_documents_def uploaded_state_def rejected_state_def dget_def
          document_types_def is_unverified_def score_document_def score dict_update_def Let_def)
  show "has_unverified_documents rejected_state = Inr True"
    by (simp add: has_unverified_documents_def rejected_state_def dget_def document_types_def
          is_unverified_def)
  show "process_documents high_draws example_fmt example_clock rejected_state
     = Inr (rescored_state, True)"
    by (simp add: process_documents_def rejected_state_def rescored_state_def dget_def
          document_types_def is_unverified_def score_document_def again dict_update_def Let_def)
qed

text \<open>
  What the mutation does in general, on a state document whose customer details are a
  dictionary and whose messages can be appended to: it returns, and reports a
  modification exactly when some document was uploaded and not verified.  A document
  type that is already marked verified is not scored again: its verified flag,
  confidence, status and verification time are as before.  When every document scored
  in the cycle reached 0.5, the readiness predicate is false on the resulting state.
\<close>

lemma verified_documents_kept:
  assumes "dget state_data ''customer_details'' (JObj []) = JObj cd"
    and "messages_appendable state_data"
  shows "(\<exists>state_data' cd'.
            process_documents draws fmt clock state_data =
              Inr (state_data', list_ex (unverified cd) document_types) \<and>
            map_of state_data' ''customer_details'' = Some (JObj cd') \<and>
            (\<forall>d \<in> set document_types.
               truthy (dget cd (d @ ''_verified'') (JBool False)) \<longrightarrow>
                 (\<forall>k \<in> set (result_keys d). map_of cd' k = map_of cd k)) \<and>
            ((\<forall>d \<in> set document_types.
                unverified cd d \<longrightarrow> analyze_document draws d \<ge> 0.5) \<longrightarrow>
               has_unverified_documents state_data' = Inr False))"
proof -
  from process_documents_dict [OF assms, of draws fmt clock]
  obtain sd' where sd':
    "process_documents draws fmt clock state_data =
       Inr (sd', list_ex (unverified cd) document_types)"
    "map_of sd' ''customer_details'' =
       Some (JObj (dict_update cd (final_results clock (scanned draws clock cd))))"
    by blast
  let ?cd' = "dict_update cd (final_results clock (scanned draws clock cd))"
  have kept: "\<forall>d \<in> set document_types.
      truthy (dget cd (d @ ''_verified'') (JBool False)) \<longrightarrow>
        (\<forall>k \<in> set (result_keys d). map_of ?cd' k = map_of cd k)"
  proof (intro ballI impI)
    fix d k
    assume d: "d \<in> set document_types" and t: "truthy (dget cd (d @ ''_verified'') (JBool False))"
      and k: "k \<in> set (result_keys d)"
    from t have "\<not> unverified cd d" by (simp add: unverified_def)
    from not_scored_lookup [OF d this k] show "map_of ?cd' k = map_of cd k" .
  qed
  have settled: "has_unverified_documents sd' = Inr False"
    if good: "\<forall>d \<in> set document_types. unverified cd d \<longrightarrow> analyze_document draws d \<ge> 0.5"
  proof -
    have "\<not> unverified ?cd' d" if d: "d \<in> set document_types" for d
    proof (cases "unverified cd d")
      case True
      have "d @ ''_verified'' \<in> set (result_keys d)" by (simp add: result_keys_def)
      from scored_lookup [OF d True this]
      have "map_of ?cd' (d @ ''_verified'') = Some (JBool (analyze_document draws d \<ge> 0.5))"
        by (simp add: map_of_score_document)
      with good d True show ?thesis
        by (simp add: unverified_def dget_def)
    next
      case False
      have "d @ ''_verified'' \<in> set (result_keys d)" by (simp add: result_keys_def)
      from not_scored_lookup [OF d False this] uploaded_lookup [OF d] False
      show ?thesis by (simp add: unverified_def dget_def)
    qed
    then have "\<not> list_ex (unverified ?cd') document_types"
      by (auto simp: list_ex_iff)
    with sd'(2) show ?thesis
      by (simp add: has_unverified_documents_def dget_def any_unverified_dict)
  qed
  show "\<exists>state_data' cd'.
            process_documents draws fmt clock state_data =
              Inr (state_data', list_ex (unverified cd) document_types) \<and>
            map_of state_data' ''customer_details'' = Some (JObj cd') \<and>
            (\<forall>d \<in> set document_types.
               truthy (dget cd (d @ ''_verified'') (JBool False)) \<longrightarrow>
                 (\<forall>k \<in> set (result_keys d). map_of cd' k = map_of cd k)) \<and>
            ((\<forall>d \<in> set document_types.
                unverified cd d \<longrightarrow> analyze_document draws d \<ge> 0.5) \<longrightarrow>
               has_unverified_documents state_data' = Inr False)"
    using sd' kept settled by (intro exI [of _ sd'] exI [of _ ?cd']) blast
qed

lemma verified_documents_kept_example:
  "dget verified_state ''customer_details'' (JObj []) =
     JObj [(''salary_slip_uploaded'', JBool True), (''salary_slip_verified'', JBool True),
           (''salary_slip_confidence'', JNum 0.9),
           (''business_financial_statement_uploaded'', JBool True)] \<and>
   messages_appendable verified_state \<and>
   (\<exists>state_data' cd'.
      process_documents high_draws example_fmt example_clock verified_state
        = Inr (state_data', True) \<and>
      map_of state_data' ''customer_details'' = Some (JObj cd') \<and>
      map_of cd' ''salary_slip_confidence'' = Some (JNum 0.9) \<and>
      has_unverified_documents state_data' = Inr False)"
proof -
  let ?cd = "[(''salary_slip_uploaded'', JBool True), (''salary_slip_verified'', JBool True),
           (''salary_slip_confidence'', JNum 0.9),
           (''business_financial_statement_uploaded'', JBool True)]"
  have h1: "dget verified_state ''customer_details'' (JObj []) = JObj ?cd"
    by (simp add: verified_state_def dget_def)
  have h2: "messages_appendable verified_state"
    by (simp add: messages_appendable_def verified_state_def)
  have some: "list_ex (unverified ?cd) document_types"
    by (simp add: document_types_def unverified_def dget_def)
  have good: "\<forall>d \<in> set document_types. unverified ?cd d \<longrightarrow>
      analyze_document high_draws d \<ge> 0.5"
    by (simp add: analyze_document_def high_draws_def)
  have slip: "''salary_slip'' \<in> set document_types"
    "truthy (dget ?cd (''salary_slip'' @ ''_verified'') (JBool False))"
    "''salary_slip_confidence'' \<in> set (result_keys ''salary_slip'')"
    by (simp_all add: document_types_def dget_def result_keys_def)
  from verified_documents_kept [OF h1 h2, of high_draws example_fmt example_clock] some
  obtain sd' cd' where r:
    "process_documents high_draws example_fmt example_clock verified_state = Inr (sd', True)"
    "map_of sd' ''customer_details'' = Some (JObj cd')"
    "\<forall>d \<in> set document_types.
       truthy (dget ?cd (d @ ''_verified'') (JBool False)) \<longrightarrow>
         (\<forall>k \<in> set (result_keys d). map_of cd' k = map_of ?cd k)"
    "(\<forall>d \<in> set document_types. unverified ?cd d \<longrightarrow> analyze_document high_draws d \<ge> 0.5)
       \<longrightarrow> has_unverified_documents sd' = Inr False"
    by auto
  from r(3) slip have "map_of cd' ''salary_slip_confidence'' = map_of ?cd ''salary_slip_confidence''"
    by blast
  then have c: "map_of cd' ''salary_slip_confidence'' = Some (JNum 0.9)" by simp
  from r(4) good have f: "has_unverified_documents sd' = Inr False" by blast
  from r(1,2) c f have "\<exists>state_data' cd'.
      process_documents high_draws example_fmt example_clock verified_state
        = Inr (state_data', True) \<and>
      map_of state_data' ''customer_details'' = Some (JObj cd') \<and>
      map_of cd' ''salary_slip_confidence'' = Some (JNum 0.9) \<and>
      has_unverified_documents state_data' = Inr False"
    by blast
  with h1 h2 show ?thesis by blast
qed

end
